theory Spec2Isabelle
  imports Main
begin

section \<open>Results of fallible Go functions\<close>

text \<open>
  A Go function returning \<open>(T, error)\<close> either yields a value, yields a non-nil
  \<open>error\<close> (carried here as its message), or does not return at all because the
  goroutine panics.  The three ways out are kept apart.
\<close>

datatype 'a outcome = Ok 'a | Error string | Panic

section \<open>Go library functions used by the code\<close>

text \<open>
  A Go \<open>error\<close> value is \<open>nil\<close> or carries a message.  \<open>errors.Wrapf\<close> and
  \<open>errors.Wrap\<close> of \<open>github.com/pkg/errors\<close> prefix the message of the error they are
  given; given \<open>nil\<close> they return \<open>nil\<close>, as that package documents.
\<close>

type_synonym go_error = "string option"

definition errors_Wrapf :: "go_error \<Rightarrow> string \<Rightarrow> go_error" where
  "errors_Wrapf err msg = (case err of None \<Rightarrow> None | Some m \<Rightarrow> Some (msg @ '': '' @ m))"

text \<open>
  \<open>strings.Split(s, sep)\<close> for a one-byte separator: a string with \<open>n\<close> separators
  has \<open>n + 1\<close> fields, and the empty string has the single field \<open>""\<close>.  Go strings
  are byte sequences, and so are the strings here.
\<close>

fun strings_Split :: "string \<Rightarrow> char \<Rightarrow> string list" where
  "strings_Split [] sep = [[]]"
| "strings_Split (c # cs) sep =
     (if c = sep then [] # strings_Split cs sep
      else (case strings_Split cs sep of f # fs \<Rightarrow> (c # f) # fs | [] \<Rightarrow> [[c]]))"

text \<open>
  \<open>strings.SplitN(s, sep, 2)\<close> for a one-byte separator cuts at the first separator only;
  \<open>strings.HasPrefix\<close>, \<open>strings.Contains\<close> and \<open>strings.Join\<close> are the usual ones.
\<close>

definition strings_SplitN2 :: "string \<Rightarrow> char \<Rightarrow> string list" where
  "strings_SplitN2 s sep =
     (if sep \<in> set s then [takeWhile (\<lambda>c. c \<noteq> sep) s, tl (dropWhile (\<lambda>c. c \<noteq> sep) s)]
      else [s])"

fun strings_HasPrefix :: "string \<Rightarrow> string \<Rightarrow> bool" where
  "strings_HasPrefix s [] = True"
| "strings_HasPrefix [] (p # ps) = False"
| "strings_HasPrefix (c # cs) (p # ps) = (c = p \<and> strings_HasPrefix cs ps)"

fun strings_Contains :: "string \<Rightarrow> string \<Rightarrow> bool" where
  "strings_Contains [] substr = (substr = [])"
| "strings_Contains (c # cs) substr =
     (strings_HasPrefix (c # cs) substr \<or> strings_Contains cs substr)"

fun strings_Join :: "string list \<Rightarrow> string \<Rightarrow> string" where
  "strings_Join [] sep = []"
| "strings_Join [e] sep = e"
| "strings_Join (e # es) sep = e @ sep @ strings_Join es sep"

text \<open>
  \<open>filepath.Clean\<close> and \<open>filepath.Join\<close> on a Unix host (\<open>path.Join\<close> is the same
  function there).  \<open>Clean\<close> drops empty and \<open>.\<close> elements, cancels an inner \<open>..\<close>
  against the element before it, drops a \<open>..\<close> at the root, and returns \<open>.\<close> for an
  empty result.  \<open>Join\<close> skips leading empty elements, joins the rest with \<open>/\<close> and
  cleans; it returns the empty string when every element is empty.
\<close>

definition Clean_step :: "bool \<Rightarrow> string list \<Rightarrow> string \<Rightarrow> string list" where
  "Clean_step rooted stack e =
     (if e = ''..'' then
        (case stack of
           [] \<Rightarrow> if rooted then [] else [''..'']
         | t # ts \<Rightarrow> if t = ''..'' then ''..'' # t # ts else ts)
      else e # stack)"

definition filepath_Clean :: "string \<Rightarrow> string" where
  "filepath_Clean path =
     (let rooted = strings_HasPrefix path ''/'';
          elems = filter (\<lambda>e. e \<noteq> [] \<and> e \<noteq> ''.'') (strings_Split path (CHR ''/''));
          out = strings_Join (rev (foldl (Clean_step rooted) [] elems)) ''/''
      in if rooted then CHR ''/'' # out else if out = [] then ''.'' else out)"

definition filepath_Join :: "string list \<Rightarrow> string" where
  "filepath_Join elem =
     (case dropWhile (\<lambda>e. e = []) elem of
        [] \<Rightarrow> []
      | e # es \<Rightarrow> filepath_Clean (strings_Join (e # es) ''/''))"

definition filepath_IsAbs :: "string \<Rightarrow> bool" where
  "filepath_IsAbs path = strings_HasPrefix path ''/''"

section \<open>Device specification strings (pkg/specgen/generate)\<close>

text \<open>
  \<open>IsValidDeviceMode\<close>: the loop runs over the characters of \<open>mode\<close> with the local
  table \<open>legalDeviceMode\<close>, clearing an entry once its letter has been seen.  A byte that is
  not \<open>r\<close>, \<open>w\<close> or \<open>m\<close> is rejected; so is every non-ASCII rune of the source, since none of
  its bytes is in the table.
\<close>

definition legalDeviceMode :: "char \<Rightarrow> bool" where
  "legalDeviceMode = (\<lambda>c. False)(CHR ''r'' := True, CHR ''w'' := True, CHR ''m'' := True)"

fun IsValidDeviceMode_loop :: "(char \<Rightarrow> bool) \<Rightarrow> string \<Rightarrow> bool" where
  "IsValidDeviceMode_loop legal [] = True"
| "IsValidDeviceMode_loop legal (c # cs) =
     (if \<not> legal c then False else IsValidDeviceMode_loop (legal(c := False)) cs)"

definition IsValidDeviceMode :: "string \<Rightarrow> bool" where
  "IsValidDeviceMode mode =
     (if mode = [] then False else IsValidDeviceMode_loop legalDeviceMode mode)"

text \<open>
  \<open>ParseDevice\<close>: a \<open>switch\<close> on the number of fields whose cases fall through from 3 to 2
  to 1.  \<open>ParseDevice_case1\<close> is the body of \<open>case 1\<close> followed by the code after the
  switch; \<open>ParseDevice_case2\<close> is the body of \<open>case 2\<close> falling into it.  The expression
  \<open>arr[1][0]\<close> indexes the first byte of the second field and panics on an empty field.
\<close>

definition ParseDevice_case1 :: "string \<Rightarrow> string \<Rightarrow> string \<Rightarrow> (string \<times> string \<times> string) outcome" where
  "ParseDevice_case1 arr0 dst permissions =
     (let src = arr0;
          dst' = (if dst = [] then src else dst)
      in Ok (src, dst', permissions))"

definition ParseDevice_case2 :: "string \<Rightarrow> string \<Rightarrow> string \<Rightarrow> (string \<times> string \<times> string) outcome" where
  "ParseDevice_case2 arr0 arr1 permissions =
     (if IsValidDeviceMode arr1 then ParseDevice_case1 arr0 [] arr1
      else (case arr1 of
              [] \<Rightarrow> Panic
            | c # _ \<Rightarrow>
                if c \<noteq> CHR ''/'' then Error (''invalid device mode: '' @ arr1)
                else ParseDevice_case1 arr0 arr1 permissions))"

definition ParseDevice :: "string \<Rightarrow> (string \<times> string \<times> string) outcome" where
  "ParseDevice device =
     (case strings_Split device (CHR '':'') of
        [arr0, arr1, arr2] \<Rightarrow>
          if \<not> IsValidDeviceMode arr2 then Error (''invalid device mode: '' @ arr2)
          else ParseDevice_case2 arr0 arr1 arr2
      | [arr0, arr1] \<Rightarrow> ParseDevice_case2 arr0 arr1 ''rwm''
      | [arr0] \<Rightarrow> ParseDevice_case1 arr0 [] ''rwm''
      | _ \<Rightarrow> Error (''invalid device specification: '' @ device))"

section \<open>The final command (pkg/specgen/generate/oci_freebsd.go)\<close>

text \<open>
  The fields of \<open>specgen.SpecGenerator\<close> that \<open>makeCommand\<close> and
  \<open>specConfigureNamespaces\<close> read.  \<open>Entrypoint\<close> is a slice that the code compares with
  \<open>nil\<close>, so \<open>None\<close> is the nil slice and \<open>Some []\<close> an empty one; \<open>Command\<close> is
  only measured with \<open>len\<close>.  \<open>NamespaceMode\<close> is a string type in the source; the
  constructors are the constants the code compares with, and \<open>Default\<close> stands for any
  other value.
\<close>

datatype NamespaceMode = Default | Host | Path | FromContainer | FromPod | Private | NoNetwork

record Namespace =
  NSMode :: NamespaceMode
  Value :: string

record SpecGenerator =
  Entrypoint :: "string list option"
  Command :: "string list"
  Init :: bool
  InitPath :: string
  Hostname :: string
  UtsNS :: Namespace
  NetNS :: Namespace
  Env :: "string \<rightharpoonup> string"

record ImageData =
  Config_Entrypoint :: "string list"
  Config_Cmd :: "string list"

text \<open>
  \<open>makeCommand\<close>.  \<open>imageData\<close> is a pointer (\<open>None\<close> is \<open>nil\<close>); \<open>rtc\<close> is a pointer to
  the engine configuration, of which only \<open>Engine.InitPath\<close> is read.  \<open>makeCommand_init\<close>
  is the last block of the function, from \<open>if s.Init\<close> to the final \<open>return\<close>.
\<close>

definition makeCommand_init :: "SpecGenerator \<Rightarrow> string option \<Rightarrow> string list \<Rightarrow> string list outcome" where
  "makeCommand_init s rtc finalCommand =
     (if Init s then
        (let initPath = InitPath s;
             initPath = (if initPath = [] \<and> rtc \<noteq> None then the rtc else initPath)
         in if initPath = [] then
              Error ''no path to init binary found but container requested an init''
            else Ok ([''/dev/init'', ''--''] @ finalCommand))
      else Ok finalCommand)"

definition makeCommand :: "SpecGenerator \<Rightarrow> ImageData option \<Rightarrow> string option \<Rightarrow> string list outcome" where
  "makeCommand s imageData rtc =
     (let finalCommand = [];
          entrypoint = Entrypoint s;
          entrypoint = (case (entrypoint, imageData) of
                          (None, Some img) \<Rightarrow> Config_Entrypoint img
                        | (None, None) \<Rightarrow> []
                        | (Some e, _) \<Rightarrow> e);
          finalCommand = (if length entrypoint \<noteq> 1 \<or> entrypoint ! 0 \<noteq> []
                          then finalCommand @ entrypoint else finalCommand);
          command = Command s;
          command = (case imageData of
                       Some img \<Rightarrow>
                         if length command = 0 \<and>
                            length (case Entrypoint s of None \<Rightarrow> [] | Some e \<Rightarrow> e) = 0
                         then Config_Cmd img else command
                     | None \<Rightarrow> command);
          finalCommand = finalCommand @ command
      in if length finalCommand = 0 then
           Error ''no command or entrypoint provided, and no CMD or ENTRYPOINT from image''
         else makeCommand_init s rtc finalCommand)"

section \<open>Hostname resolution (pkg/specgen/generate/namespaces_freebsd.go)\<close>

text \<open>
  The part of the \<open>generate.Generator\<close> that the code under study writes: the
  hostname, mount list, root path and annotations of the configuration, and the process
  environment, which the generator keeps with one entry per variable name (a later
  \<open>AddProcessEnv\<close> of the same name replaces the value).
\<close>

record Mount =
  Destination :: string
  Type :: string
  Source :: string
  Options :: "string list"

record Generator =
  Config_Hostname :: string
  Config_Process_Env :: "string \<rightharpoonup> string"
  Config_Mounts :: "Mount list"
  Config_Root_Path :: string
  Config_Annotations :: "string \<rightharpoonup> string"

definition RemoveHostname :: "Generator \<Rightarrow> Generator" where
  "RemoveHostname g = g\<lparr>Config_Hostname := []\<rparr>"

definition SetHostname :: "string \<Rightarrow> Generator \<Rightarrow> Generator" where
  "SetHostname s g = g\<lparr>Config_Hostname := s\<rparr>"

definition AddProcessEnv :: "string \<Rightarrow> string \<Rightarrow> Generator \<Rightarrow> Generator" where
  "AddProcessEnv name val g =
     (if name = [] then g else g\<lparr>Config_Process_Env := (Config_Process_Env g)(name \<mapsto> val)\<rparr>)"

definition AddMount :: "Mount \<Rightarrow> Generator \<Rightarrow> Generator" where
  "AddMount mnt g = g\<lparr>Config_Mounts := Config_Mounts g @ [mnt]\<rparr>"

definition SetRootPath :: "string \<Rightarrow> Generator \<Rightarrow> Generator" where
  "SetRootPath path g = g\<lparr>Config_Root_Path := path\<rparr>"

definition AddAnnotation :: "string \<Rightarrow> string \<Rightarrow> Generator \<Rightarrow> Generator" where
  "AddAnnotation key val g = g\<lparr>Config_Annotations := (Config_Annotations g)(key \<mapsto> val)\<rparr>"

text \<open>
  What \<open>specConfigureNamespaces\<close> asks of its surroundings: the hostname of the pod it is
  given, the runtime's container lookup followed by the hostname of the container
  found, and the operating system's hostname.  The last two can fail.
\<close>

record hostname_sources =
  pod_Hostname :: string
  rt_LookupContainer_Hostname :: "string \<Rightarrow> string outcome"
  os_Hostname :: "string outcome"

text \<open>
  \<open>specConfigureNamespaces_hostname\<close> is the first statement block of the function, which
  computes the local variable \<open>hostname\<close> or returns an error; the function proper then
  writes the generator.  The debug message of the \<open>default\<close> case is not recorded.
\<close>

definition specConfigureNamespaces_hostname :: "SpecGenerator \<Rightarrow> hostname_sources \<Rightarrow> string outcome" where
  "specConfigureNamespaces_hostname s w =
     (let hostname = Hostname s in
      if hostname = [] then
        (if NSMode (UtsNS s) = FromPod then Ok (pod_Hostname w)
         else if NSMode (UtsNS s) = FromContainer then
           (case rt_LookupContainer_Hostname w (Value (UtsNS s)) of
              Ok h \<Rightarrow> Ok h
            | Error e \<Rightarrow>
                Error (''error looking up container to share uts namespace with: '' @ e)
            | Panic \<Rightarrow> Panic)
         else if (NSMode (NetNS s) = Host \<and> hostname = []) \<or> NSMode (UtsNS s) = Host then
           (case os_Hostname w of
              Ok tmpHostname \<Rightarrow> Ok tmpHostname
            | Error e \<Rightarrow> Error (''unable to retrieve hostname of the host: '' @ e)
            | Panic \<Rightarrow> Panic)
         else Ok hostname)
      else Ok hostname)"

definition specConfigureNamespaces :: "SpecGenerator \<Rightarrow> Generator \<Rightarrow> hostname_sources \<Rightarrow> Generator outcome" where
  "specConfigureNamespaces s g w =
     (case specConfigureNamespaces_hostname s w of
        Error e \<Rightarrow> Error e
      | Panic \<Rightarrow> Panic
      | Ok hostname \<Rightarrow>
          (let g = RemoveHostname g;
               g = (if Hostname s \<noteq> [] \<or> NSMode (UtsNS s) \<noteq> Host
                    then SetHostname hostname g else g);
               g = (if Env s ''HOSTNAME'' = None \<and> Hostname s \<noteq> []
                    then AddProcessEnv ''HOSTNAME'' hostname g else g)
           in Ok g))"

section \<open>Containers (libpod)\<close>

text \<open>
  Modelled from the spec: the lifecycle phases of \<open>define.ContainerStatus\<close>, whose
  declaration is not among the source files.  The constructors are the constants the
  code names (\<open>ContainerStateConfigured\<close>, \<open>ContainerStateCreated\<close>,
  \<open>ContainerStateRunning\<close>, \<open>ContainerStateStopped\<close>, \<open>ContainerStatePaused\<close>,
  \<open>ContainerStateExited\<close>, \<open>ContainerStateUnknown\<close>); the spec's "Stopped (exited)" is
  \<open>ContainerStateExited\<close>, the phase of a stopped container after cleanup.
\<close>

datatype ContainerStatus =
    ContainerStateUnknown
  | ContainerStateConfigured
  | ContainerStateCreated
  | ContainerStateRunning
  | ContainerStateStopped
  | ContainerStatePaused
  | ContainerStateExited

text \<open>
  Network status as the network backend reports it: per network a status block, per
  interface the subnets and the MAC address.  \<open>Interfaces\<close> is a Go map that the code
  only ranges over; the list holds its entries in the order the range visits them.
  A \<open>nil\<close> hardware address is \<open>None\<close>.
\<close>

record NetAddress =
  IPNet_IP :: string
  Gateway :: string

record NetInterface =
  Subnets :: "NetAddress list"
  MacAddress :: "string option"

record StatusBlock =
  Interfaces :: "(string \<times> NetInterface) list"

record PerNetworkOptions =
  StaticIPs :: "string list"
  StaticMAC :: "string option"
  InterfaceName :: string
  Aliases :: "string list"

record ContainerNamedVolume =
  vol_Name :: string
  vol_Dest :: string
  vol_Options :: "string list"

record ContainerSecret =
  secret_Name :: string
  secret_Target :: string

text \<open>
  The configuration of a container, with the fields and accessors the code under study
  reads.  \<open>AutoRemove\<close>, \<open>bundlePath\<close> and \<open>CheckpointPath\<close> are accessor methods of
  \<open>Container\<close> defined outside the source files; each returns a value fixed at creation.
\<close>

record ContainerConfig =
  ID :: string
  CreateNetNS :: bool
  PostConfigureNetNS :: bool
  NetNsCtr :: string
  ChrootDirs :: "string list"
  NamedVolumes :: "ContainerNamedVolume list"
  Secrets :: "ContainerSecret list"
  SecretsPath :: string
  StaticDir :: string
  SdNotifyMode :: string
  Passwd :: "bool option"
  AutoRemove :: bool
  bundlePath :: string
  CheckpointPath :: string

text \<open>
  The mutable state of a container.  Times are points on a clock, \<open>0\<close> being the zero
  \<open>time.Time{}\<close>.
\<close>

record ContainerState =
  State :: ContainerStatus
  Mounted :: bool
  Mountpoint :: string
  NetworkJail :: string
  NetworkStatus :: "string \<rightharpoonup> StatusBlock"
  BindMounts :: "string \<rightharpoonup> string"
  RunDir :: string
  Checkpointed :: bool
  Restored :: bool
  CheckpointedTime :: nat
  RestoredTime :: nat
  FinishedTime :: nat
  CheckpointLog :: string
  state_CheckpointPath :: string
  RestoreLog :: string

text \<open>
  Modelled from the spec: \<open>ensureState\<close>, a method of \<open>Container\<close> defined outside the
  source files; it tells whether the container is in one of the given phases ("valid only
  from Configured or Stopped (exited)").
\<close>

definition ensureState :: "ContainerState \<Rightarrow> ContainerStatus list \<Rightarrow> bool" where
  "ensureState st states = (State st \<in> set states)"

subsection \<open>Preparation\<close>

text \<open>
  What \<open>prepare\<close> asks of its surroundings: \<open>c.runtime.createNetNS(c)\<close> yields a jail
  name, a network status and an error; \<open>c.mountStorage()\<close> a mount point and an error;
  \<open>c.save()\<close> an error.
\<close>

record prepare_calls =
  createNetNS_result :: "string \<times> (string \<rightharpoonup> StatusBlock) \<times> go_error"
  mountStorage_result :: "string \<times> go_error"
  save_result :: go_error

text \<open>
  The two goroutines of \<open>prepare\<close>.  Each returns the error it stored in its variable
  (\<open>createNetNSErr\<close>, \<open>mountStorageErr\<close>) and the state after its critical section.  The
  first reads \<open>c.state.NetworkJail\<close> and writes \<open>NetworkJail\<close> and \<open>NetworkStatus\<close>; the
  second writes \<open>Mounted\<close> and \<open>Mountpoint\<close>.  The writes are made under
  \<open>tmpStateLock\<close>, so a run is one of the two orders of the critical sections;
  \<open>netns_first\<close> says which.
\<close>

definition prepare_netns :: "ContainerConfig \<Rightarrow> prepare_calls \<Rightarrow> ContainerState \<Rightarrow> go_error \<times> ContainerState" where
  "prepare_netns cfg w st =
     (let noNetNS = (NetworkJail st = []) in
      if CreateNetNS cfg \<and> noNetNS \<and> \<not> PostConfigureNetNS cfg then
        (case createNetNS_result w of
           (jailName, networkStatus, createNetNSErr) \<Rightarrow>
             if createNetNSErr \<noteq> None then (createNetNSErr, st)
             else (None, st\<lparr>NetworkJail := jailName, NetworkStatus := networkStatus\<rparr>))
      else (None, st))"

definition prepare_mount :: "prepare_calls \<Rightarrow> ContainerState \<Rightarrow> go_error \<times> ContainerState" where
  "prepare_mount w st =
     (case mountStorage_result w of
        (mountPoint, mountStorageErr) \<Rightarrow>
          if mountStorageErr \<noteq> None then (mountStorageErr, st)
          else (None, st\<lparr>Mounted := True, Mountpoint := mountPoint\<rparr>))"

text \<open>
  \<open>prepare\<close> after \<open>wg.Wait()\<close>: \<open>createErr\<close> starts as \<open>nil\<close> and is assigned from
  \<open>mountStorageErr\<close> only; \<open>createNetNSErr\<close> is not read again.  (The
  \<open>logrus.Errorf\<close> inside the test of \<open>mountStorageErr\<close> is guarded by
  \<open>createErr != nil\<close>, which is false there.)  The result is the returned error and the
  state.
\<close>

definition prepare :: "ContainerConfig \<Rightarrow> prepare_calls \<Rightarrow> bool \<Rightarrow> ContainerState \<Rightarrow> go_error \<times> ContainerState" where
  "prepare cfg w netns_first st =
     (let (createNetNSErr, mountStorageErr, st) =
            (if netns_first then
               (case prepare_netns cfg w st of
                  (e1, st1) \<Rightarrow> (case prepare_mount w st1 of (e2, st2) \<Rightarrow> (e1, e2, st2)))
             else
               (case prepare_mount w st of
                  (e2, st1) \<Rightarrow> (case prepare_netns cfg w st1 of (e1, st2) \<Rightarrow> (e1, e2, st2))));
          createErr = None;
          createErr = (if mountStorageErr \<noteq> None then mountStorageErr else createErr)
      in if createErr \<noteq> None then (createErr, st)
         else (case save_result w of
                 Some err \<Rightarrow> (Some err, st)
               | None \<Rightarrow> (None, st)))"

subsection \<open>Checkpoint\<close>

text \<open>
  Errors built from a format string carry the format string, with string arguments filled
  in where the text below does so and other arguments left as their verbs.

  A run of \<open>checkpoint\<close> or \<open>restore\<close> is observed through the error it returns, the
  state it leaves and the calls it made to its collaborators: the launcher's dump and
  create operations, the archive export, \<open>cleanup\<close> and \<open>save\<close> (each with the state it
  was called on) and \<open>saveSpec\<close> (with the specification it was given).
\<close>

datatype call =
    Call_CheckpointContainer
  | Call_exportCheckpoint
  | Call_cleanup ContainerState
  | Call_save ContainerState
  | Call_prepare
  | Call_saveSpec Generator
  | Call_CreateContainer

record ContainerCheckpointOptions =
  Keep :: bool
  KeepRunning :: bool
  TargetFile :: string
  WithPrevious :: bool
  PreCheckPoint :: bool
  PrintStats :: bool
  Name :: string
  Pod :: string
  ImportPrevious :: string
  IgnoreRootfs :: bool
  IgnoreVolumes :: bool
  IgnoreStaticIP :: bool
  IgnoreStaticMAC :: bool

text \<open>
  The capabilities of the dump engine and of the launcher: \<open>criu.CheckForCriu\<close>,
  \<open>c.ociRuntime.SupportsCheckpoint()\<close>, \<open>crutils.CRRuntimeSupportsPodCheckpointRestore\<close>
  and the two version constants of package \<open>criu\<close>.
\<close>

record cr_support =
  CheckForCriu :: "nat \<Rightarrow> bool"
  SupportsCheckpoint :: bool
  CRRuntimeSupportsPodCheckpointRestore :: bool
  MinCriuVersion :: nat
  PodCriuVersion :: nat

definition checkpointRestoreSupported :: "cr_support \<Rightarrow> nat \<Rightarrow> go_error" where
  "checkpointRestoreSupported engine version =
     (if \<not> CheckForCriu engine version then
        Some ''checkpoint/restore requires at least CRIU %d''
      else if \<not> SupportsCheckpoint engine then
        Some ''configured runtime does not support checkpoint/restore''
      else None)"

text \<open>
  The collaborators of \<open>checkpoint\<close>, in the order of their calls.  \<open>cleanup\<close> changes
  the state it is called on; \<open>time_Now n\<close> is the \<open>n\<close>-th reading of the clock in the
  run.  Statistics are a list of counters.
\<close>

type_synonym statistics = "nat list"

record checkpoint_calls =
  support :: cr_support
  CRCreateFileWithLabel_result :: go_error
  CheckpointContainer_result :: "int \<times> go_error"
  WriteJSONFile_result :: go_error
  Symlink_result :: go_error
  exportCheckpoint_result :: go_error
  cleanup_result :: "ContainerState \<Rightarrow> go_error \<times> ContainerState"
  statsDirectory_Open_result :: go_error
  CriuGetDumpStats_result :: "statistics \<times> go_error"
  time_Now :: "nat \<Rightarrow> nat"
  checkpoint_save_result :: go_error

type_synonym checkpoint_result =
  "(statistics option \<times> int \<times> go_error) \<times> ContainerState \<times> call list"

text \<open>The function literal that reads the dump statistics.\<close>

definition checkpoint_criuStatistics :: "checkpoint_calls \<Rightarrow> ContainerCheckpointOptions \<Rightarrow> statistics option \<times> go_error" where
  "checkpoint_criuStatistics w options =
     (if \<not> PrintStats options then (None, None)
      else (case statsDirectory_Open_result w of
              Some err \<Rightarrow> (None, errors_Wrapf (Some err) ''Not able to open %q'')
            | None \<Rightarrow>
                (case CriuGetDumpStats_result w of
                   (dumpStatistics, Some err) \<Rightarrow>
                     (None, errors_Wrapf (Some err)
                        ''Displaying checkpointing statistics not possible'')
                 | (dumpStatistics, None) \<Rightarrow> (Some dumpStatistics, None))))"

text \<open>
  \<open>checkpoint_dumped\<close> is \<open>checkpoint\<close> from the symbolic link of \<open>WithPrevious\<close> to the
  final \<open>return\<close>, entered once the launcher's dump and the network status file have
  succeeded; \<open>tr\<close> holds the calls made before.  The deferred container event and the
  best-effort removal of files are not recorded.
\<close>

definition checkpoint_dumped :: "ContainerConfig \<Rightarrow> checkpoint_calls \<Rightarrow> ContainerCheckpointOptions \<Rightarrow> int \<Rightarrow> ContainerState \<Rightarrow> call list \<Rightarrow> checkpoint_result" where
  "checkpoint_dumped cfg w options runtimeCheckpointDuration st tr =
     (if WithPrevious options \<and> Symlink_result w \<noteq> None then
        ((None, 0, Symlink_result w), st, tr)
      else if TargetFile options \<noteq> [] \<and> exportCheckpoint_result w \<noteq> None then
        ((None, 0, exportCheckpoint_result w), st, tr @ [Call_exportCheckpoint])
      else
        (let tr = (if TargetFile options \<noteq> [] then tr @ [Call_exportCheckpoint] else tr);
             st1 = st\<lparr>State := ContainerStateStopped, Checkpointed := True,
                      CheckpointedTime := time_Now w 0, Restored := False,
                      RestoredTime := 0\<rparr>;
             stopping = (\<not> KeepRunning options \<and> \<not> PreCheckPoint options)
         in if stopping \<and> fst (cleanup_result w st1) \<noteq> None then
              ((None, 0, fst (cleanup_result w st1)), snd (cleanup_result w st1),
               tr @ [Call_cleanup st1])
            else
              (let st = (if stopping then snd (cleanup_result w st1) else st);
                   tr = (if stopping then tr @ [Call_cleanup st1] else tr)
               in (case checkpoint_criuStatistics w options of
                     (criuStatistics, Some err) \<Rightarrow> ((None, 0, Some err), st, tr)
                   | (criuStatistics, None) \<Rightarrow>
                       (let st = (if \<not> Keep options \<and> \<not> PreCheckPoint options
                                  then st\<lparr>CheckpointLog := []\<rparr> else st);
                            st = st\<lparr>FinishedTime := time_Now w (if stopping then 1 else 0)\<rparr>
                        in ((criuStatistics, runtimeCheckpointDuration,
                             checkpoint_save_result w),
                            st, tr @ [Call_save st]))))))"

definition checkpoint :: "ContainerConfig \<Rightarrow> checkpoint_calls \<Rightarrow> ContainerCheckpointOptions \<Rightarrow> ContainerState \<Rightarrow> checkpoint_result" where
  "checkpoint cfg w options st =
     (case checkpointRestoreSupported (support w) (MinCriuVersion (support w)) of
        Some err \<Rightarrow> ((None, 0, Some err), st, [])
      | None \<Rightarrow>
          if State st \<noteq> ContainerStateRunning then
            ((None, 0, errors_Wrapf (Some ''container state improper'')
                         ''%q is not running, cannot checkpoint''), st, [])
          else if AutoRemove cfg \<and> TargetFile options = [] then
            ((None, 0,
              Some (''cannot checkpoint containers that have been started with '' @
                    [CHR 0x27] @ ''--rm'' @ [CHR 0x27] @ '' unless '' @
                    [CHR 0x27] @ ''--export'' @ [CHR 0x27] @ '' is used'')), st, [])
          else
            (case CRCreateFileWithLabel_result w of
               Some err \<Rightarrow> ((None, 0, Some err), st, [])
             | None \<Rightarrow>
                 (let st = st\<lparr>CheckpointLog := filepath_Join [bundlePath cfg, ''dump.log''],
                              state_CheckpointPath := CheckpointPath cfg\<rparr>
                  in (case CheckpointContainer_result w of
                        (runtimeCheckpointDuration, Some err) \<Rightarrow>
                          ((None, 0, Some err), st, [Call_CheckpointContainer])
                      | (runtimeCheckpointDuration, None) \<Rightarrow>
                          (case WriteJSONFile_result w of
                             Some err \<Rightarrow> ((None, 0, Some err), st, [Call_CheckpointContainer])
                           | None \<Rightarrow>
                               checkpoint_dumped cfg w options runtimeCheckpointDuration st
                                 [Call_CheckpointContainer])))))"

subsection \<open>Restore\<close>

text \<open>
  Modelled from the spec: \<open>MountExists\<close>, a function of package \<open>libpod\<close> defined outside
  the source files; it tells whether a destination "is already mounted", that is, whether
  a mount of the list has this destination.
\<close>

definition MountExists :: "Mount list \<Rightarrow> string \<Rightarrow> bool" where
  "MountExists specMounts dest = list_ex (\<lambda>m. Destination m = dest) specMounts"

text \<open>
  The result of \<open>os.Stat\<close> on the inventory file, as far as \<open>os.IsNotExist\<close> tells the
  errors apart.
\<close>

datatype stat_result = Stat_ok | Stat_not_exist string | Stat_other_error string

text \<open>
  The collaborators of the loop that restores the content of named volumes, by file
  path or volume name.
\<close>

record volume_calls =
  os_Open_result :: "string \<Rightarrow> go_error"
  GetVolume_result :: "string \<Rightarrow> go_error"
  MountPoint_result :: "string \<Rightarrow> string \<times> go_error"
  UntarUncompressed_result :: "string \<Rightarrow> go_error"

text \<open>
  The collaborators of \<open>restore\<close>.  \<open>ReadJSONFile_result\<close> is the network status
  snapshot read from the bundle; \<open>networks_result\<close> is \<open>c.networks()\<close>;
  \<open>infraContainer_result\<close> stands for the lookup, synchronisation and start of the pod's
  infrastructure container and yields its network jail; \<open>makeBindMounts_result\<close> is the
  effect of \<open>c.makeBindMounts()\<close> on the state; \<open>range_BindMounts\<close> is the order in which
  the \<open>range\<close> over the bind-mount map visits destinations.
\<close>

record restore_calls =
  restore_support :: cr_support
  importPreCheckpoint_result :: go_error
  importCheckpoint_result :: go_error
  Stat_inventory_result :: stat_result
  CRCreateFileWithLabel_restore_result :: go_error
  ReadJSONFile_result :: "(string \<rightharpoonup> StatusBlock) \<times> go_error"
  networks_result :: "(string \<rightharpoonup> PerNetworkOptions) \<times> go_error"
  restore_prepare_calls :: prepare_calls
  prepare_netns_first :: bool
  NewFromFile_result :: "Generator \<times> go_error"
  infraContainer_result :: "string \<times> go_error"
  makeBindMounts_result :: "ContainerState \<Rightarrow> go_error \<times> ContainerState"
  range_BindMounts :: "string list"
  removeConmonFiles_result :: go_error
  saveSpec_result :: go_error
  restore_volume_calls :: volume_calls
  CRApplyRootFsDiffTar_result :: go_error
  CRRemoveDeletedFiles_result :: go_error
  CreateContainer_result :: "int \<times> go_error"
  restore_statsDirectory_Open_result :: go_error
  CriuGetRestoreStats_result :: "statistics \<times> go_error"
  restore_time_Now :: nat
  restore_cleanup_result :: "ContainerState \<Rightarrow> go_error \<times> ContainerState"
  restore_save_result :: go_error

record restore_result =
  criuStatistics :: "statistics option"
  runtimeRestoreDuration :: int
  retErr :: go_error
  state_after :: ContainerState
  perNetworkOpts_after :: "string \<rightharpoonup> PerNetworkOptions"
  calls :: "call list"

text \<open>
  A \<open>return nil, 0, e\<close> of \<open>restore\<close>; the error \<open>e\<close> may be \<open>nil\<close>.
\<close>

definition restore_return :: "go_error \<Rightarrow> ContainerState \<Rightarrow> (string \<rightharpoonup> PerNetworkOptions) \<Rightarrow> call list \<Rightarrow> restore_result" where
  "restore_return e st pno tr =
     \<lparr>criuStatistics = None, runtimeRestoreDuration = 0, retErr = e, state_after = st,
      perNetworkOpts_after = pno, calls = tr\<rparr>"

text \<open>
  The checks at the head of \<open>restore\<close>, up to the creation of \<open>restore.log\<close>:
  \<open>Some e\<close> is a return with error \<open>e\<close>, \<open>None\<close> lets the function go on.
\<close>

definition restore_checks :: "restore_calls \<Rightarrow> ContainerCheckpointOptions \<Rightarrow> ContainerState \<Rightarrow> go_error option" where
  "restore_checks w options st =
     (let minCriuVersion = (if Pod options = [] then MinCriuVersion (restore_support w)
                            else PodCriuVersion (restore_support w))
      in case checkpointRestoreSupported (restore_support w) minCriuVersion of
           Some err \<Rightarrow> Some (Some err)
         | None \<Rightarrow>
             if Pod options \<noteq> [] \<and> \<not> CRRuntimeSupportsPodCheckpointRestore (restore_support w)
             then Some (Some ''runtime %s does not support pod restore'')
             else if \<not> ensureState st [ContainerStateConfigured, ContainerStateExited] then
               Some (errors_Wrapf (Some ''container state improper'')
                       ''container %s is running or paused, cannot restore'')
             else if ImportPrevious options \<noteq> [] \<and> importPreCheckpoint_result w \<noteq> None then
               Some (importPreCheckpoint_result w)
             else if TargetFile options \<noteq> [] \<and> importCheckpoint_result w \<noteq> None then
               Some (importCheckpoint_result w)
             else
               (case Stat_inventory_result w of
                  Stat_not_exist err \<Rightarrow>
                    Some (errors_Wrapf (Some err)
                      ''a complete checkpoint for this container cannot be found, cannot restore'')
                | _ \<Rightarrow>
                    (case CRCreateFileWithLabel_restore_result w of
                       Some err \<Rightarrow> Some (Some err)
                     | None \<Rightarrow> None)))"

text \<open>
  The per-network options rebuilt from the snapshot for one network of the container:
  the body of the loop over \<open>networkOpts\<close>.  Only the first interface the range visits
  is used.  Both the MAC address and the IP addresses are guarded by
  \<open>options.IgnoreStaticIP\<close> in the source.
\<close>

definition restore_perNetOpts :: "ContainerCheckpointOptions \<Rightarrow> (string \<rightharpoonup> StatusBlock) \<Rightarrow> string \<Rightarrow> PerNetworkOptions \<Rightarrow> PerNetworkOptions" where
  "restore_perNetOpts options netStatus network perNetOpts =
     (let perNetOpts = perNetOpts\<lparr>StaticMAC := None, StaticIPs := []\<rparr> in
      case (case netStatus network of None \<Rightarrow> [] | Some block \<Rightarrow> Interfaces block) of
        [] \<Rightarrow> perNetOpts
      | (name, netInt) # _ \<Rightarrow>
          (let perNetOpts = perNetOpts\<lparr>InterfaceName := name\<rparr>;
               perNetOpts = (if \<not> IgnoreStaticIP options
                             then perNetOpts\<lparr>StaticMAC := MacAddress netInt\<rparr>
                             else perNetOpts);
               perNetOpts = (if \<not> IgnoreStaticIP options
                             then perNetOpts\<lparr>StaticIPs :=
                                    StaticIPs perNetOpts @ map IPNet_IP (Subnets netInt)\<rparr>
                             else perNetOpts)
           in perNetOpts))"

text \<open>
  The block that reads the network configuration from the checkpoint and sets
  \<open>c.perNetworkOpts\<close>.  \<open>Inl e\<close> is a return with error \<open>e\<close>; \<open>Inr\<close> carries the
  per-network options the container has afterwards.
\<close>

definition restore_networks :: "restore_calls \<Rightarrow> ContainerCheckpointOptions \<Rightarrow> (string \<rightharpoonup> PerNetworkOptions) \<Rightarrow> go_error + (string \<rightharpoonup> PerNetworkOptions)" where
  "restore_networks w options perNetworkOpts =
     (case ReadJSONFile_result w of
        (netStatus, err) \<Rightarrow>
          if err = None \<and> Name options = [] \<and>
             (\<not> IgnoreStaticIP options \<or> \<not> IgnoreStaticMAC options)
          then
            (case networks_result w of
               (networkOpts, Some err) \<Rightarrow> Inl (Some err)
             | (networkOpts, None) \<Rightarrow>
                 Inr (\<lambda>network.
                        case networkOpts network of
                          None \<Rightarrow> None
                        | Some perNetOpts \<Rightarrow>
                            Some (restore_perNetOpts options netStatus network perNetOpts)))
          else Inr perNetworkOpts)"

text \<open>
  The loop over \<open>c.config.NamedVolumes\<close> that restores volume content: \<open>None\<close> when the
  loop runs to its end, \<open>Some e\<close> for a \<open>return nil, 0, e\<close> inside it.  In the branch
  for an empty mount point, \<open>err\<close> is the \<open>nil\<close> error of \<open>volume.MountPoint()\<close>, and
  \<open>errors.Wrapf\<close> is applied to it.
\<close>

fun restore_volumes :: "volume_calls \<Rightarrow> string \<Rightarrow> ContainerNamedVolume list \<Rightarrow> go_error option" where
  "restore_volumes w bundle [] = None"
| "restore_volumes w bundle (v # vs) =
     (let volumeFilePath = filepath_Join [bundle, ''volumes'', vol_Name v @ ''.tar''] in
      case os_Open_result w volumeFilePath of
        Some err \<Rightarrow>
          Some (errors_Wrapf (Some err) (''failed to open volume file '' @ volumeFilePath))
      | None \<Rightarrow>
          (case GetVolume_result w (vol_Name v) of
             Some err \<Rightarrow>
               Some (errors_Wrapf (Some err) (''failed to retrieve volume '' @ vol_Name v))
           | None \<Rightarrow>
               (case MountPoint_result w (vol_Name v) of
                  (mountPoint, err) \<Rightarrow>
                    if err \<noteq> None then Some err
                    else if mountPoint = [] then
                      Some (errors_Wrapf err
                        (''unable to import volume '' @ vol_Name v @ '' as it is not mounted''))
                    else
                      (case UntarUncompressed_result w (vol_Name v) of
                         Some err \<Rightarrow>
                           Some (errors_Wrapf (Some err)
                             (''Failed to extract volume '' @ volumeFilePath @ '' to '' @ mountPoint))
                       | None \<Rightarrow> restore_volumes w bundle vs))))"

text \<open>
  The loop that adds the bind mounts to the specification when restoring from an
  archive; no message is logged here for a destination that is already mounted.
\<close>

fun restore_bindMounts :: "(string \<rightharpoonup> string) \<Rightarrow> string list \<Rightarrow> Generator \<Rightarrow> Generator" where
  "restore_bindMounts bindMounts [] g = g"
| "restore_bindMounts bindMounts (dstPath # rest) g =
     (case bindMounts dstPath of
        None \<Rightarrow> restore_bindMounts bindMounts rest g
      | Some srcPath \<Rightarrow>
          (let newMount = \<lparr>Destination = dstPath, Type = ''nullfs'', Source = srcPath,
                           Options = [''bind'', ''private'']\<rparr>
           in restore_bindMounts bindMounts rest
                (if \<not> MountExists (Config_Mounts g) dstPath then AddMount newMount g else g)))"

text \<open>The function literal that reads the restore statistics.\<close>

definition restore_criuStatistics :: "restore_calls \<Rightarrow> ContainerCheckpointOptions \<Rightarrow> statistics option \<times> go_error" where
  "restore_criuStatistics w options =
     (if \<not> PrintStats options then (None, None)
      else (case restore_statsDirectory_Open_result w of
              Some err \<Rightarrow> (None, errors_Wrapf (Some err) ''Not able to open %q'')
            | None \<Rightarrow>
                (case CriuGetRestoreStats_result w of
                   (restoreStatistics, Some err) \<Rightarrow>
                     (None, errors_Wrapf (Some err) ''Displaying restore statistics not possible'')
                 | (restoreStatistics, None) \<Rightarrow> (Some restoreStatistics, None))))"

text \<open>
  \<open>restore_created\<close> is the end of \<open>restore\<close>, from the reading of the statistics, entered
  once the launcher has re-created the process.
\<close>

definition restore_created :: "restore_calls \<Rightarrow> ContainerCheckpointOptions \<Rightarrow> int \<Rightarrow> ContainerState \<Rightarrow> (string \<rightharpoonup> PerNetworkOptions) \<Rightarrow> call list \<Rightarrow> restore_result" where
  "restore_created w options duration st pno tr =
     (case restore_criuStatistics w options of
        (stats, Some err) \<Rightarrow> restore_return (Some err) st pno tr
      | (stats, None) \<Rightarrow>
          (let st = st\<lparr>State := ContainerStateRunning, Checkpointed := False, Restored := True,
                       CheckpointedTime := 0, RestoredTime := restore_time_Now w\<rparr>;
               st = (if \<not> Keep options
                     then st\<lparr>state_CheckpointPath := [], CheckpointLog := [], RestoreLog := []\<rparr>
                     else st)
           in \<lparr>criuStatistics = stats, runtimeRestoreDuration = duration,
               retErr = restore_save_result w, state_after = st,
               perNetworkOpts_after = pno, calls = tr @ [Call_save st]\<rparr>))"

text \<open>
  \<open>restore_spec\<close> is \<open>restore\<close> from the reading of \<open>config.json\<close> to the launcher's
  \<open>CreateContainer\<close>, entered once \<open>prepare\<close> has succeeded.
\<close>

definition restore_spec :: "ContainerConfig \<Rightarrow> restore_calls \<Rightarrow> ContainerCheckpointOptions \<Rightarrow> ContainerState \<Rightarrow> (string \<rightharpoonup> PerNetworkOptions) \<Rightarrow> call list \<Rightarrow> restore_result" where
  "restore_spec cfg w options st pno tr =
     (case NewFromFile_result w of
        (g, Some err) \<Rightarrow> restore_return (Some err) st pno tr
      | (g, None) \<Rightarrow>
          (let g = (if TargetFile options \<noteq> [] then SetRootPath (Mountpoint st) g else g) in
           if Pod options \<noteq> [] \<and> snd (infraContainer_result w) \<noteq> None then
             restore_return (snd (infraContainer_result w)) st pno tr
           else
             (let g = (if Pod options \<noteq> []
                       then AddAnnotation ''org.freebsd.parentJail''
                              (fst (infraContainer_result w)) g
                       else g)
              in case makeBindMounts_result w st of
                   (Some err, st) \<Rightarrow> restore_return (Some err) st pno tr
                 | (None, st) \<Rightarrow>
                     (let g = (if TargetFile options \<noteq> []
                               then restore_bindMounts (BindMounts st) (range_BindMounts w) g
                               else g)
                      in if removeConmonFiles_result w \<noteq> None then
                           restore_return (removeConmonFiles_result w) st pno tr
                         else if saveSpec_result w \<noteq> None then
                           restore_return (saveSpec_result w) st pno (tr @ [Call_saveSpec g])
                         else
                           (let tr = tr @ [Call_saveSpec g] in
                            case (if TargetFile options \<noteq> [] \<and> \<not> IgnoreVolumes options
                                  then restore_volumes (restore_volume_calls w) (bundlePath cfg)
                                         (NamedVolumes cfg)
                                  else None) of
                              Some e \<Rightarrow> restore_return e st pno tr
                            | None \<Rightarrow>
                                if \<not> IgnoreRootfs options \<and> CRApplyRootFsDiffTar_result w \<noteq> None
                                then restore_return (CRApplyRootFsDiffTar_result w) st pno tr
                                else if \<not> IgnoreRootfs options \<and>
                                        CRRemoveDeletedFiles_result w \<noteq> None
                                then restore_return (CRRemoveDeletedFiles_result w) st pno tr
                                else
                                  (case CreateContainer_result w of
                                     (duration, Some err) \<Rightarrow>
                                       restore_return (Some err) st pno
                                         (tr @ [Call_CreateContainer])
                                   | (duration, None) \<Rightarrow>
                                       restore_created w options duration st pno
                                         (tr @ [Call_CreateContainer])))))))"

text \<open>
  \<open>restore\<close>.  The first two blocks return before the deferred function is installed.
  After that, a return with a non-nil \<open>retErr\<close> runs \<open>c.cleanup\<close>, whose own error is
  only logged.
\<close>

definition restore :: "ContainerConfig \<Rightarrow> restore_calls \<Rightarrow> ContainerCheckpointOptions \<Rightarrow> ContainerState \<Rightarrow> (string \<rightharpoonup> PerNetworkOptions) \<Rightarrow> restore_result" where
  "restore cfg w options st pno =
     (case restore_checks w options st of
        Some e \<Rightarrow> restore_return e st pno []
      | None \<Rightarrow>
          (let st = st\<lparr>RestoreLog := filepath_Join [bundlePath cfg, ''restore.log''],
                       state_CheckpointPath := CheckpointPath cfg\<rparr>
           in case restore_networks w options pno of
                Inl e \<Rightarrow> restore_return e st pno []
              | Inr pno \<Rightarrow>
                  (let r = (case prepare cfg (restore_prepare_calls w) (prepare_netns_first w) st of
                              (Some err, st) \<Rightarrow> restore_return (Some err) st pno [Call_prepare]
                            | (None, st) \<Rightarrow> restore_spec cfg w options st pno [Call_prepare])
                   in if retErr r \<noteq> None then
                        r\<lparr>state_after := snd (restore_cleanup_result w (state_after r)),
                          calls := calls r @ [Call_cleanup (state_after r)]\<rparr>
                      else r)))"

section \<open>Specification generation (libpod)\<close>

subsection \<open>Named volumes\<close>

text \<open>
  \<open>generateSpec\<close> returns a specification and an error.  Inside its loops a step either
  lets the function go on or is a \<open>return nil, e\<close>, where the error \<open>e\<close> may be \<open>nil\<close>.
\<close>

datatype 'a flow = Continue 'a | Return go_error

text \<open>
  The loop over \<open>namedVol.Options\<close> that finds the overlay flag and the two option
  fragments.  The state of the loop is \<open>(overlayFlag, upperDir, workDir)\<close>.
\<close>

fun generateSpec_overlayOptions :: "string list \<Rightarrow> bool \<times> string \<times> string \<Rightarrow> (bool \<times> string \<times> string) flow" where
  "generateSpec_overlayOptions [] vars = Continue vars"
| "generateSpec_overlayOptions (opt # opts) (overlayFlag, upperDir, workDir) =
     (let overlayFlag = (if opt = ''O'' then True else overlayFlag);
          splitOpt = strings_SplitN2 opt (CHR ''='');
          inUpper = (overlayFlag \<and> strings_Contains opt ''upperdir'' \<and> length splitOpt > 1);
          upperDir = (if inUpper then splitOpt ! 1 else upperDir)
      in if inUpper \<and> upperDir = [] then Return (Some ''cannot accept empty value for upperdir'')
         else
           (let inWork = (overlayFlag \<and> strings_Contains opt ''workdir'' \<and> length splitOpt > 1);
                workDir = (if inWork then splitOpt ! 1 else workDir)
            in if inWork \<and> workDir = [] then
                 Return (Some ''cannot accept empty value for workdir'')
               else generateSpec_overlayOptions opts (overlayFlag, upperDir, workDir)))"

text \<open>
  What the named-volume loop asks of its surroundings: the volume lookup and its mount
  point (in \<open>volume_calls\<close>), the temporary directory and the overlay mount of package
  \<open>overlay\<close> (the latter from content directory, source, destination and the two option
  fragments), and the change of ownership of a host path.
\<close>

record namedVolume_calls =
  nv_volume_calls :: volume_calls
  overlay_TempDir_result :: "string \<times> go_error"
  overlay_MountWithOptions_result ::
    "string \<Rightarrow> string \<Rightarrow> string \<Rightarrow> string \<Rightarrow> string \<Rightarrow> Mount \<times> go_error"
  ChangeHostPathOwnership_result :: "string \<Rightarrow> go_error"

text \<open>The loop over the options of an overlay volume that handles \<open>U\<close>.\<close>

fun generateSpec_overlayChown :: "namedVolume_calls \<Rightarrow> string \<Rightarrow> string \<Rightarrow> string list \<Rightarrow> unit flow" where
  "generateSpec_overlayChown w mountPoint contentDir [] = Continue ()"
| "generateSpec_overlayChown w mountPoint contentDir (opt # opts) =
     (if opt = ''U'' then
        (case ChangeHostPathOwnership_result w mountPoint of
           Some err \<Rightarrow> Return (Some err)
         | None \<Rightarrow>
             (case ChangeHostPathOwnership_result w contentDir of
                Some err \<Rightarrow> Return (Some err)
              | None \<Rightarrow> generateSpec_overlayChown w mountPoint contentDir opts))
      else generateSpec_overlayChown w mountPoint contentDir opts)"

text \<open>
  The body of the loop over \<open>c.config.NamedVolumes\<close>.  In the test for a lone
  \<open>upperdir\<close> or \<open>workdir\<close>, \<open>err\<close> is the variable assigned by \<open>overlay.TempDir\<close>,
  which is \<open>nil\<close> at that point, and \<open>errors.Wrapf\<close> is applied to it.
\<close>

definition generateSpec_namedVolume :: "namedVolume_calls \<Rightarrow> ContainerConfig \<Rightarrow> ContainerNamedVolume \<Rightarrow> Generator \<Rightarrow> Generator flow" where
  "generateSpec_namedVolume w cfg namedVol g =
     (case GetVolume_result (nv_volume_calls w) (vol_Name namedVol) of
        Some err \<Rightarrow>
          Return (errors_Wrapf (Some err)
            (''error retrieving volume '' @ vol_Name namedVol @ '' to add to container '' @ ID cfg))
      | None \<Rightarrow>
          (case MountPoint_result (nv_volume_calls w) (vol_Name namedVol) of
             (mountPoint, Some err) \<Rightarrow> Return (Some err)
           | (mountPoint, None) \<Rightarrow>
               (case generateSpec_overlayOptions (vol_Options namedVol) (False, [], []) of
                  Return e \<Rightarrow> Return e
                | Continue (overlayFlag, upperDir, workDir) \<Rightarrow>
                    if overlayFlag then
                      (case overlay_TempDir_result w of
                         (contentDir, err) \<Rightarrow>
                           if err \<noteq> None then Return err
                           else if (upperDir \<noteq> [] \<and> workDir = []) \<or>
                                   (upperDir = [] \<and> workDir \<noteq> []) then
                             Return (errors_Wrapf err ''must specify both upperdir and workdir'')
                           else
                             (case overlay_MountWithOptions_result w contentDir mountPoint
                                     (vol_Dest namedVol) upperDir workDir of
                                (overlayMount, Some err) \<Rightarrow>
                                  Return (errors_Wrapf (Some err)
                                    (''mounting overlay failed '' @ mountPoint))
                              | (overlayMount, None) \<Rightarrow>
                                  (case generateSpec_overlayChown w mountPoint contentDir
                                          (vol_Options namedVol) of
                                     Return e \<Rightarrow> Return e
                                   | Continue _ \<Rightarrow> Continue (AddMount overlayMount g))))
                    else
                      Continue (AddMount \<lparr>Destination = vol_Dest namedVol, Type = ''nullfs'',
                                  Source = mountPoint, Options = vol_Options namedVol\<rparr> g))))"

fun generateSpec_namedVolumes :: "namedVolume_calls \<Rightarrow> ContainerConfig \<Rightarrow> ContainerNamedVolume list \<Rightarrow> Generator \<Rightarrow> Generator flow" where
  "generateSpec_namedVolumes w cfg [] g = Continue g"
| "generateSpec_namedVolumes w cfg (namedVol # rest) g =
     (case generateSpec_namedVolume w cfg namedVol g of
        Return e \<Rightarrow> Return e
      | Continue g \<Rightarrow> generateSpec_namedVolumes w cfg rest g)"

subsection \<open>Bind mounts\<close>

text \<open>
  Messages written with \<open>logrus\<close> are collected in a list, in the order they are
  written.  The functions below work on the bind-mount map \<open>c.state.BindMounts\<close>, from
  destination path in the container to source path on the host.

  \<open>mountIntoRootDirs\<close> stores the mount under its name and under every chroot directory,
  with a debug message for each chroot directory; it always returns \<open>nil\<close>.
\<close>

definition mountIntoRootDirs :: "ContainerConfig \<Rightarrow> string \<Rightarrow> string \<Rightarrow> (string \<rightharpoonup> string) \<Rightarrow> (string \<rightharpoonup> string) \<times> string list" where
  "mountIntoRootDirs cfg mountName mountPath bindMounts =
     (foldl (\<lambda>bm chrootDir. bm(filepath_Join [chrootDir, mountName] \<mapsto> mountPath))
        (bindMounts(mountName \<mapsto> mountPath)) (ChrootDirs cfg),
      map (\<lambda>chrootDir. ''bind chrootDir='' @ chrootDir @ '', mountName='' @ mountName)
        (ChrootDirs cfg))"

text \<open>
  What the writers of the bind-mount map ask of their surroundings: \<open>os.Chown\<close>,
  \<open>label.Relabel\<close> and \<open>os.MkdirAll\<close> by path, the result of
  \<open>c.generatePasswdAndGroup()\<close>, the list \<open>subscriptions.MountsWithUIDGID\<close> returns, the
  result of \<open>os.Stat\<close> on the secrets directory, and the environment variable
  \<open>NOTIFY_SOCKET\<close>.
\<close>

record bindMount_calls =
  os_Chown_result :: "string \<Rightarrow> go_error"
  label_Relabel_result :: "string \<Rightarrow> go_error"
  os_MkdirAll_result :: "string \<Rightarrow> go_error"
  generatePasswdAndGroup_result :: "string \<times> string \<times> go_error"
  subscriptionMounts :: "Mount list"
  Stat_secrets_result :: stat_result
  LookupEnv_NOTIFY_SOCKET :: "string option"

text \<open>
  \<open>bindMountRootFile\<close>, through which the hosts file and \<open>resolv.conf\<close> are entered.
\<close>

definition bindMountRootFile :: "bindMount_calls \<Rightarrow> ContainerConfig \<Rightarrow> string \<Rightarrow> string \<Rightarrow> (string \<rightharpoonup> string) \<Rightarrow> go_error \<times> (string \<rightharpoonup> string) \<times> string list" where
  "bindMountRootFile w cfg source dest bindMounts =
     (case os_Chown_result w source of
        Some err \<Rightarrow> (Some err, bindMounts, [])
      | None \<Rightarrow>
          (case label_Relabel_result w source of
             Some err \<Rightarrow> (Some err, bindMounts, [])
           | None \<Rightarrow>
               (case mountIntoRootDirs cfg dest source bindMounts of
                  (bindMounts, msgs) \<Rightarrow> (None, bindMounts, msgs))))"

text \<open>
  The block of \<open>makeBindMounts\<close> for \<open>/etc/passwd\<close> and \<open>/etc/group\<close>.
\<close>

definition makeBindMounts_passwd :: "bindMount_calls \<Rightarrow> ContainerConfig \<Rightarrow> (string \<rightharpoonup> string) \<Rightarrow> go_error \<times> (string \<rightharpoonup> string) \<times> string list" where
  "makeBindMounts_passwd w cfg bindMounts =
     (if Passwd cfg = None \<or> Passwd cfg = Some True then
        (case generatePasswdAndGroup_result w of
           (newPasswd, newGroup, Some err) \<Rightarrow>
             (errors_Wrapf (Some err)
                (''error creating temporary passwd file for container '' @ ID cfg),
              bindMounts, [])
         | (newPasswd, newGroup, None) \<Rightarrow>
             (let bindMounts =
                    (if newPasswd \<noteq> [] then
                       (bindMounts(''/etc/passwd'' := None))(''/etc/passwd'' \<mapsto> newPasswd)
                     else bindMounts);
                  bindMounts =
                    (if newGroup \<noteq> [] then
                       (bindMounts(''/etc/group'' := None))(''/etc/group'' \<mapsto> newGroup)
                     else bindMounts)
              in (None, bindMounts, [])))
      else (None, bindMounts, []))"

text \<open>The loop of \<open>makeBindMounts\<close> over the subscription mounts.\<close>

fun makeBindMounts_subscriptions :: "Mount list \<Rightarrow> (string \<rightharpoonup> string) \<Rightarrow> (string \<rightharpoonup> string)" where
  "makeBindMounts_subscriptions [] bindMounts = bindMounts"
| "makeBindMounts_subscriptions (mount # rest) bindMounts =
     makeBindMounts_subscriptions rest
       (if bindMounts (Destination mount) = None
        then bindMounts(Destination mount \<mapsto> Source mount) else bindMounts)"

text \<open>\<open>createSecretMountDir\<close>, and the block of \<open>makeBindMounts\<close> for secrets.\<close>

definition createSecretMountDir :: "bindMount_calls \<Rightarrow> string \<Rightarrow> (string \<rightharpoonup> string) \<Rightarrow> go_error \<times> (string \<rightharpoonup> string)" where
  "createSecretMountDir w runDir bindMounts =
     (let src = filepath_Join [runDir, ''/run/secrets''] in
      case Stat_secrets_result w of
        Stat_not_exist msg \<Rightarrow>
          (case os_MkdirAll_result w src of
             Some err \<Rightarrow> (Some err, bindMounts)
           | None \<Rightarrow>
               (case label_Relabel_result w src of
                  Some err \<Rightarrow> (Some err, bindMounts)
                | None \<Rightarrow>
                    (case os_Chown_result w src of
                       Some err \<Rightarrow> (Some err, bindMounts)
                     | None \<Rightarrow> (None, bindMounts(''/run/secrets'' \<mapsto> src)))))
      | Stat_ok \<Rightarrow> (None, bindMounts)
      | Stat_other_error msg \<Rightarrow> (Some msg, bindMounts))"

fun makeBindMounts_secretsLoop :: "string \<Rightarrow> ContainerSecret list \<Rightarrow> (string \<rightharpoonup> string) \<Rightarrow> (string \<rightharpoonup> string)" where
  "makeBindMounts_secretsLoop secretsPath [] bindMounts = bindMounts"
| "makeBindMounts_secretsLoop secretsPath (secret # rest) bindMounts =
     (let secretFileName = secret_Name secret;
          base = ''/run/secrets'';
          (secretFileName, base) =
            (if secret_Target secret \<noteq> [] then
               (secret_Target secret,
                if filepath_IsAbs (secret_Target secret) then [] else base)
             else (secretFileName, base));
          src = filepath_Join [secretsPath, secret_Name secret];
          dest = filepath_Join [base, secretFileName]
      in makeBindMounts_secretsLoop secretsPath rest (bindMounts(dest \<mapsto> src)))"

definition makeBindMounts_secrets :: "bindMount_calls \<Rightarrow> ContainerConfig \<Rightarrow> string \<Rightarrow> (string \<rightharpoonup> string) \<Rightarrow> go_error \<times> (string \<rightharpoonup> string) \<times> string list" where
  "makeBindMounts_secrets w cfg runDir bindMounts =
     (if length (Secrets cfg) > 0 then
        (case createSecretMountDir w runDir bindMounts of
           (Some err, bindMounts) \<Rightarrow>
             (errors_Wrapf (Some err) ''error creating secrets mount'', bindMounts, [])
         | (None, bindMounts) \<Rightarrow>
             (None, makeBindMounts_secretsLoop (SecretsPath cfg) (Secrets cfg) bindMounts, []))
      else (None, bindMounts, []))"

text \<open>
  \<open>mountNotifySocket\<close>.  The result holds the error, the bind-mount map, the generator
  and the messages; the assignment to \<open>c.notifySocket\<close> is not recorded, and an error
  of \<open>os.MkdirAll\<close> that \<open>os.IsExist\<close> accepts counts as success.
  \<open>SdNotifyModeContainer\<close> is the constant \<open>"container"\<close> of package \<open>define\<close>.
\<close>

definition mountNotifySocket :: "bindMount_calls \<Rightarrow> ContainerConfig \<Rightarrow> Generator \<Rightarrow> (string \<rightharpoonup> string) \<Rightarrow> go_error \<times> (string \<rightharpoonup> string) \<times> Generator \<times> string list" where
  "mountNotifySocket w cfg g bindMounts =
     (case LookupEnv_NOTIFY_SOCKET w of
        None \<Rightarrow> (None, bindMounts, g, [])
      | Some notify \<Rightarrow>
          if SdNotifyMode cfg \<noteq> ''container'' then (None, bindMounts, g, [])
          else
            (let notifyDir = filepath_Join [bundlePath cfg, ''notify''];
                 msgs = [''Checking notify '' @ notifyDir @ '' dir'']
             in case os_MkdirAll_result w notifyDir of
                  Some err \<Rightarrow>
                    (errors_Wrapf (Some err) (''unable to create notify '' @ notifyDir @ '' dir''),
                     bindMounts, g, msgs)
                | None \<Rightarrow>
                    (case label_Relabel_result w notifyDir of
                       Some err \<Rightarrow>
                         (errors_Wrapf (Some err) (''relabel failed '' @ notifyDir),
                          bindMounts, g, msgs)
                     | None \<Rightarrow>
                         (None,
                          if bindMounts ''/run/notify'' = None
                          then bindMounts(''/run/notify'' \<mapsto> notifyDir) else bindMounts,
                          AddProcessEnv ''NOTIFY_SOCKET'' ''/run/notify/notify.sock'' g,
                          msgs @ [''Add bindmount notify '' @ notifyDir @ '' dir'']))))"

text \<open>
  The loop of \<open>generateSpec\<close> that adds the bind mounts of the state to the
  specification.  The \<open>range\<close> over the map visits its destinations in some order, given
  as a list; the loop carries the generator and the messages logged so far.
\<close>

fun generateSpec_bindMounts :: "(string \<rightharpoonup> string) \<Rightarrow> string list \<Rightarrow> Generator \<times> string list \<Rightarrow> Generator \<times> string list" where
  "generateSpec_bindMounts bindMounts [] (g, msgs) = (g, msgs)"
| "generateSpec_bindMounts bindMounts (dstPath # rest) (g, msgs) =
     (case bindMounts dstPath of
        None \<Rightarrow> generateSpec_bindMounts bindMounts rest (g, msgs)
      | Some srcPath \<Rightarrow>
          (let newMount = \<lparr>Destination = dstPath, Type = ''nullfs'', Source = srcPath,
                           Options = []\<rparr>
           in if \<not> MountExists (Config_Mounts g) dstPath then
                generateSpec_bindMounts bindMounts rest (AddMount newMount g, msgs)
              else
                generateSpec_bindMounts bindMounts rest
                  (g, msgs @ [''User mount overriding libpod mount at '' @ dstPath])))"

section \<open>Concrete inputs\<close>

text \<open>
  Go zero values of the structures above, from which the concrete inputs of the
  examples below are built by field updates.
\<close>

definition Namespace_zero :: Namespace where
  "Namespace_zero = \<lparr>NSMode = Default, Value = []\<rparr>"

definition SpecGenerator_zero :: SpecGenerator where
  "SpecGenerator_zero =
     \<lparr>Entrypoint = None, Command = [], Init = False, InitPath = [], Hostname = [],
      UtsNS = Namespace_zero, NetNS = Namespace_zero, Env = Map.empty\<rparr>"

definition Generator_zero :: Generator where
  "Generator_zero =
     \<lparr>Config_Hostname = [], Config_Process_Env = Map.empty, Config_Mounts = [],
      Config_Root_Path = [], Config_Annotations = Map.empty\<rparr>"

definition hostname_sources_example :: hostname_sources where
  "hostname_sources_example =
     \<lparr>pod_Hostname = ''podhost'',
      rt_LookupContainer_Hostname =
        (\<lambda>name. if name = ''dep'' then Ok ''dephost'' else Error ''no such container''),
      os_Hostname = Ok ''machine''\<rparr>"

definition ImageData_example :: ImageData where
  "ImageData_example = \<lparr>Config_Entrypoint = [''/entry''], Config_Cmd = [''serve'']\<rparr>"

definition ContainerConfig_example :: ContainerConfig where
  "ContainerConfig_example =
     \<lparr>ID = ''c1'', CreateNetNS = True, PostConfigureNetNS = False, NetNsCtr = [],
      ChrootDirs = [], NamedVolumes = [], Secrets = [], SecretsPath = ''/secrets'',
      StaticDir = ''/static'', SdNotifyMode = [], Passwd = None, AutoRemove = False,
      bundlePath = ''/bundle'', CheckpointPath = ''/bundle/checkpoint''\<rparr>"

definition ContainerState_zero :: ContainerState where
  "ContainerState_zero =
     \<lparr>State = ContainerStateUnknown, Mounted = False, Mountpoint = [], NetworkJail = [],
      NetworkStatus = Map.empty, BindMounts = Map.empty, RunDir = [], Checkpointed = False,
      Restored = False, CheckpointedTime = 0, RestoredTime = 0, FinishedTime = 0,
      CheckpointLog = [], state_CheckpointPath = [], RestoreLog = []\<rparr>"

text \<open>
  A network backend that fails, next to a storage mount and a state save that succeed.
\<close>

definition prepare_calls_netns_fails :: prepare_calls where
  "prepare_calls_netns_fails =
     \<lparr>createNetNS_result = (''c1-vnet'', Map.empty, Some ''network setup failed''),
      mountStorage_result = (''/mnt/c1'', None),
      save_result = None\<rparr>"

definition ContainerCheckpointOptions_zero :: ContainerCheckpointOptions where
  "ContainerCheckpointOptions_zero =
     \<lparr>Keep = False, KeepRunning = False, TargetFile = [], WithPrevious = False,
      PreCheckPoint = False, PrintStats = False, Name = [], Pod = [], ImportPrevious = [],
      IgnoreRootfs = False, IgnoreVolumes = False, IgnoreStaticIP = False,
      IgnoreStaticMAC = False\<rparr>"

text \<open>
  A dump engine and a launcher that can checkpoint, and collaborators that all succeed;
  \<open>cleanup\<close> unmounts the storage and takes a stopped container to the exited phase.
\<close>

definition cr_support_example :: cr_support where
  "cr_support_example =
     \<lparr>CheckForCriu = (\<lambda>version. True), SupportsCheckpoint = True,
      CRRuntimeSupportsPodCheckpointRestore = True, MinCriuVersion = 31100,
      PodCriuVersion = 31600\<rparr>"

definition cleanup_example :: "ContainerState \<Rightarrow> go_error \<times> ContainerState" where
  "cleanup_example st =
     (None, st\<lparr>Mounted := False, Mountpoint := [], NetworkJail := [],
              State := (if State st = ContainerStateStopped then ContainerStateExited
                        else State st)\<rparr>)"

definition checkpoint_calls_example :: checkpoint_calls where
  "checkpoint_calls_example =
     \<lparr>support = cr_support_example, CRCreateFileWithLabel_result = None,
      CheckpointContainer_result = (5, None), WriteJSONFile_result = None,
      Symlink_result = None, exportCheckpoint_result = None,
      cleanup_result = cleanup_example, statsDirectory_Open_result = None,
      CriuGetDumpStats_result = ([], None), time_Now = (\<lambda>n. 100 + n),
      checkpoint_save_result = None\<rparr>"

definition ContainerState_running :: ContainerState where
  "ContainerState_running =
     ContainerState_zero\<lparr>State := ContainerStateRunning, Mounted := True,
       Mountpoint := ''/mnt/c1'', NetworkJail := ''c1-vnet''\<rparr>"

definition ContainerState_checkpointed :: ContainerState where
  "ContainerState_checkpointed =
     ContainerState_zero\<lparr>State := ContainerStateExited, Checkpointed := True,
       CheckpointedTime := 100\<rparr>"

definition volume_calls_example :: volume_calls where
  "volume_calls_example =
     \<lparr>os_Open_result = (\<lambda>path. None), GetVolume_result = (\<lambda>name. None),
      MountPoint_result = (\<lambda>name. (''/volumes/'' @ name, None)),
      UntarUncompressed_result = (\<lambda>name. None)\<rparr>"

definition prepare_calls_example :: prepare_calls where
  "prepare_calls_example =
     \<lparr>createNetNS_result = (''c1-vnet'', Map.empty, None),
      mountStorage_result = (''/mnt/c1'', None),
      save_result = None\<rparr>"

definition NetworkStatus_example :: "string \<rightharpoonup> StatusBlock" where
  "NetworkStatus_example =
     [''podman'' \<mapsto>
        \<lparr>Interfaces =
           [(''eth0'', \<lparr>Subnets = [\<lparr>IPNet_IP = ''10.88.0.5'', Gateway = ''10.88.0.1''\<rparr>],
                        MacAddress = Some ''aa:bb:cc:dd:ee:ff''\<rparr>)]\<rparr>]"

definition PerNetworkOptions_zero :: PerNetworkOptions where
  "PerNetworkOptions_zero =
     \<lparr>StaticIPs = [], StaticMAC = None, InterfaceName = [], Aliases = []\<rparr>"

definition restore_calls_example :: restore_calls where
  "restore_calls_example =
     \<lparr>restore_support = cr_support_example, importPreCheckpoint_result = None,
      importCheckpoint_result = None, Stat_inventory_result = Stat_ok,
      CRCreateFileWithLabel_restore_result = None,
      ReadJSONFile_result = (NetworkStatus_example, None),
      networks_result = ([''podman'' \<mapsto> PerNetworkOptions_zero], None),
      restore_prepare_calls = prepare_calls_example, prepare_netns_first = True,
      NewFromFile_result = (Generator_zero, None), infraContainer_result = ([], None),
      makeBindMounts_result = (\<lambda>st. (None, st)), range_BindMounts = [],
      removeConmonFiles_result = None, saveSpec_result = None,
      restore_volume_calls = volume_calls_example, CRApplyRootFsDiffTar_result = None,
      CRRemoveDeletedFiles_result = None, CreateContainer_result = (7, None),
      restore_statsDirectory_Open_result = None, CriuGetRestoreStats_result = ([], None),
      restore_time_Now = 200, restore_cleanup_result = cleanup_example,
      restore_save_result = None\<rparr>"

text \<open>
  A container with one named volume, restored from an archive while the volume reports
  an empty mount point and no error.
\<close>

definition ContainerConfig_volume :: ContainerConfig where
  "ContainerConfig_volume =
     ContainerConfig_example\<lparr>NamedVolumes :=
       [\<lparr>vol_Name = ''data'', vol_Dest = ''/data'', vol_Options = []\<rparr>]\<rparr>"

definition restore_calls_unmounted_volume :: restore_calls where
  "restore_calls_unmounted_volume =
     restore_calls_example\<lparr>restore_volume_calls :=
       volume_calls_example\<lparr>MountPoint_result := (\<lambda>name. ([], None))\<rparr>\<rparr>"

text \<open>
  Collaborators of the named-volume loop that all succeed, and a named volume asking for
  an overlay with an upper directory but no work directory.
\<close>

definition namedVolume_calls_example :: namedVolume_calls where
  "namedVolume_calls_example =
     \<lparr>nv_volume_calls = volume_calls_example,
      overlay_TempDir_result = (''/static/overlay/1'', None),
      overlay_MountWithOptions_result =
        (\<lambda>contentDir source dest upperDir workDir.
           (\<lparr>Destination = dest, Type = ''overlay'', Source = source,
             Options = [''upperdir='' @ upperDir, ''workdir='' @ workDir]\<rparr>, None)),
      ChangeHostPathOwnership_result = (\<lambda>path. None)\<rparr>"

definition ContainerNamedVolume_upper_only :: ContainerNamedVolume where
  "ContainerNamedVolume_upper_only =
     \<lparr>vol_Name = ''data'', vol_Dest = ''/data'', vol_Options = [''O'', ''upperdir=/upper'']\<rparr>"

text \<open>
  Collaborators of the bind-mount writers that all succeed; the secrets directory exists.
\<close>

definition bindMount_calls_example :: bindMount_calls where
  "bindMount_calls_example =
     \<lparr>os_Chown_result = (\<lambda>path. None), label_Relabel_result = (\<lambda>path. None),
      os_MkdirAll_result = (\<lambda>path. None),
      generatePasswdAndGroup_result = (''/static/passwd'', [], None),
      subscriptionMounts =
        [\<lparr>Destination = ''/run/secrets'', Type = ''bind'', Source = ''/run/c1/secrets'',
          Options = []\<rparr>],
      Stat_secrets_result = Stat_ok,
      LookupEnv_NOTIFY_SOCKET = Some ''/run/systemd/notify''\<rparr>"

text \<open>
  A container with one secret whose target is the absolute path \<open>/etc/hosts\<close>, and a
  bind-mount map that already holds the hosts file.
\<close>

definition ContainerConfig_secret :: ContainerConfig where
  "ContainerConfig_secret =
     ContainerConfig_example\<lparr>Secrets := [\<lparr>secret_Name = ''s1'', secret_Target = ''/etc/hosts''\<rparr>]\<rparr>"

definition BindMounts_hosts :: "string \<rightharpoonup> string" where
  "BindMounts_hosts = [''/etc/hosts'' \<mapsto> ''/run/c1/hosts'']"

text \<open>
  A container with one chroot directory, and a bind-mount map that already holds the
  hosts file under both of its names.
\<close>

definition ContainerConfig_chroot :: ContainerConfig where
  "ContainerConfig_chroot = ContainerConfig_example\<lparr>ChrootDirs := [''/chroot'']\<rparr>"

definition BindMounts_chroot :: "string \<rightharpoonup> string" where
  "BindMounts_chroot =
     [''/etc/hosts'' \<mapsto> ''/run/c1/hosts'', ''/chroot/etc/hosts'' \<mapsto> ''/run/c1/hosts'']"

text \<open>
  Identity files of which both are generated, and a bind-mount map that already holds
  both.
\<close>

definition bindMount_calls_group :: bindMount_calls where
  "bindMount_calls_group =
     bindMount_calls_example\<lparr>generatePasswdAndGroup_result :=
       (''/static/passwd'', ''/static/group'', None)\<rparr>"

definition BindMounts_identity :: "string \<rightharpoonup> string" where
  "BindMounts_identity = [''/etc/passwd'' \<mapsto> ''/old/passwd'', ''/etc/group'' \<mapsto> ''/old/group'']"

text \<open>
  A container with two secrets, the first with the absolute target \<open>/etc/hosts\<close>, the
  second without a target, and a bind-mount map that already holds both destinations.
\<close>

definition ContainerConfig_two_secrets :: ContainerConfig where
  "ContainerConfig_two_secrets =
     ContainerConfig_example\<lparr>Secrets :=
       [\<lparr>secret_Name = ''s1'', secret_Target = ''/etc/hosts''\<rparr>,
        \<lparr>secret_Name = ''s2'', secret_Target = []\<rparr>]\<rparr>"

definition BindMounts_secrets :: "string \<rightharpoonup> string" where
  "BindMounts_secrets =
     [''/etc/hosts'' \<mapsto> ''/run/c1/hosts'', ''/run/secrets/s2'' \<mapsto> ''/old/s2'']"

section \<open>Properties of the device string parser\<close>









text \<open>
  Claim C10, as amended.  A device string whose second field is empty makes
  \<open>ParseDevice\<close> panic at \<open>arr[1][0]\<close> when it has exactly two fields, or exactly three
  fields of which the third is a valid permission set.  With three fields and an invalid
  third field, or with more than three fields, the function returns an error before it
  looks at the second field.
\<close>

theorem ParseDevice_empty_second_field:
  "(strings_Split device (CHR '':'') = [arr0, []] \<longrightarrow> ParseDevice device = Panic) \<and>
   (strings_Split device (CHR '':'') = [arr0, [], arr2] \<and> IsValidDeviceMode arr2 \<longrightarrow>
      ParseDevice device = Panic) \<and>
   (strings_Split device (CHR '':'') = [arr0, [], arr2] \<and> \<not> IsValidDeviceMode arr2 \<longrightarrow>
      ParseDevice device = Error (''invalid device mode: '' @ arr2)) \<and>
   (strings_Split device (CHR '':'') = arr0 # [] # arr2 # arr3 # rest \<longrightarrow>
      ParseDevice device = Error (''invalid device specification: '' @ device))"
  by (simp add: ParseDevice_def ParseDevice_case2_def IsValidDeviceMode_def)

theorem ParseDevice_empty_second_field_witness:
  "ParseDevice ''/dev/foo:'' = Panic \<and> ParseDevice ''/dev/foo::rw'' = Panic \<and>
   ParseDevice ''/dev/foo::'' = Error ''invalid device mode: '' \<and>
   ParseDevice ''/dev/foo::rw:'' = Error ''invalid device specification: /dev/foo::rw:''"
  using ParseDevice_empty_second_field [of "''/dev/foo:''" "''/dev/foo''"]
    ParseDevice_empty_second_field [of "''/dev/foo::rw''" "''/dev/foo''" "''rw''"]
    ParseDevice_empty_second_field [of "''/dev/foo::''" "''/dev/foo''" "[]"]
    ParseDevice_empty_second_field [of "''/dev/foo::rw:''" "''/dev/foo''" "''rw''" "[]" "[]"]
  by (simp add: IsValidDeviceMode_def legalDeviceMode_def)

text \<open>
  The string \<open>/dev/foo::\<close> has an empty second field, and \<open>ParseDevice\<close> returns an error
  value for it.
\<close>

theorem ParseDevice_empty_second_field_counterexample:
  "strings_Split ''/dev/foo::'' (CHR '':'') = [''/dev/foo'', [], []] \<and>
   ParseDevice ''/dev/foo::'' = Error ''invalid device mode: ''"
  by (simp add: ParseDevice_def IsValidDeviceMode_def)

section \<open>Properties of the final command\<close>

lemma single_empty_string_iff:
  "(length e \<noteq> 1 \<or> e ! 0 \<noteq> []) \<longleftrightarrow> e \<noteq> [[]]" for e :: "string list"
  by (cases e) auto

lemma makeCommand_unfold:
  "makeCommand s imageData rtc =
     (if (if (case Entrypoint s of
                None \<Rightarrow> (case imageData of Some img \<Rightarrow> Config_Entrypoint img | None \<Rightarrow> [])
              | Some e \<Rightarrow> e) \<noteq> [[]]
          then (case Entrypoint s of
                  None \<Rightarrow> (case imageData of Some img \<Rightarrow> Config_Entrypoint img | None \<Rightarrow> [])
                | Some e \<Rightarrow> e)
          else []) @
         (case imageData of
            Some img \<Rightarrow>
              if Command s = [] \<and> (Entrypoint s = None \<or> Entrypoint s = Some [])
              then Config_Cmd img else Command s
          | None \<Rightarrow> Command s) = []
      then Error ''no command or entrypoint provided, and no CMD or ENTRYPOINT from image''
      else makeCommand_init s rtc
        ((if (case Entrypoint s of
                None \<Rightarrow> (case imageData of Some img \<Rightarrow> Config_Entrypoint img | None \<Rightarrow> [])
              | Some e \<Rightarrow> e) \<noteq> [[]]
          then (case Entrypoint s of
                  None \<Rightarrow> (case imageData of Some img \<Rightarrow> Config_Entrypoint img | None \<Rightarrow> [])
                | Some e \<Rightarrow> e)
          else []) @
         (case imageData of
            Some img \<Rightarrow>
              if Command s = [] \<and> (Entrypoint s = None \<or> Entrypoint s = Some [])
              then Config_Cmd img else Command s
          | None \<Rightarrow> Command s)))"
  unfolding makeCommand_def Let_def single_empty_string_iff
  by (cases "Entrypoint s"; cases imageData) simp_all

text \<open>
  Claim C9.  An explicit entrypoint list replaces the image entrypoint: with one the
  result does not depend on the image entrypoint, and the command starts with the
  explicit list.  An explicit command replaces the image command, and the image command
  is not read when a command or a non-empty entrypoint was given; it is used when
  neither was given.  An entrypoint that is the single empty string prepends nothing.
  When entrypoint and command together yield no element the function returns the error
  "no command or entrypoint provided ...", and no non-error result is empty.  The
  results are stated up to \<open>makeCommand_init\<close>, the last block of the function, which
  prepends the init binary when the container asked for one.
\<close>

theorem makeCommand_precedence:
  "(Entrypoint s = Some ep \<longrightarrow>
      makeCommand s (Some img) rtc = makeCommand s (Some (img\<lparr>Config_Entrypoint := e'\<rparr>)) rtc) \<and>
   (Entrypoint s = Some ep \<and> ep \<noteq> [[]] \<and> Command s \<noteq> [] \<longrightarrow>
      makeCommand s imageData rtc = makeCommand_init s rtc (ep @ Command s)) \<and>
   (Entrypoint s = Some ep \<and> ep \<noteq> [[]] \<and> ep \<noteq> [] \<and> Command s = [] \<longrightarrow>
      makeCommand s imageData rtc = makeCommand_init s rtc ep) \<and>
   (Command s \<noteq> [] \<or> (Entrypoint s = Some ep \<and> ep \<noteq> []) \<longrightarrow>
      makeCommand s (Some img) rtc = makeCommand s (Some (img\<lparr>Config_Cmd := c'\<rparr>)) rtc) \<and>
   (Entrypoint s = None \<and> Command s \<noteq> [] \<and> Config_Entrypoint img \<noteq> [[]] \<longrightarrow>
      makeCommand s (Some img) rtc = makeCommand_init s rtc (Config_Entrypoint img @ Command s)) \<and>
   (Entrypoint s = None \<and> Command s = [] \<and> Config_Entrypoint img \<noteq> [[]] \<and>
      Config_Entrypoint img @ Config_Cmd img \<noteq> [] \<longrightarrow>
      makeCommand s (Some img) rtc
        = makeCommand_init s rtc (Config_Entrypoint img @ Config_Cmd img)) \<and>
   (Entrypoint s = Some [[]] \<and> Command s \<noteq> [] \<longrightarrow>
      makeCommand s imageData rtc = makeCommand_init s rtc (Command s)) \<and>
   (Entrypoint s = Some [[]] \<and> Command s = [] \<longrightarrow>
      makeCommand s imageData rtc
        = Error ''no command or entrypoint provided, and no CMD or ENTRYPOINT from image'') \<and>
   (Entrypoint s = None \<and> Command s = [] \<longrightarrow>
      makeCommand s None rtc
        = Error ''no command or entrypoint provided, and no CMD or ENTRYPOINT from image'') \<and>
   (Entrypoint s = None \<and> Command s = [] \<and>
      (Config_Entrypoint img = [] \<or> Config_Entrypoint img = [[]]) \<and> Config_Cmd img = [] \<longrightarrow>
      makeCommand s (Some img) rtc
        = Error ''no command or entrypoint provided, and no CMD or ENTRYPOINT from image'') \<and>
   (makeCommand s imageData rtc = Ok final \<longrightarrow> final \<noteq> [])"
proof (intro conjI impI)
  assume "makeCommand s imageData rtc = Ok final"
  then show "final \<noteq> []"
    unfolding makeCommand_unfold makeCommand_init_def Let_def
    by (simp split: if_splits) auto
next
  assume "Command s \<noteq> [] \<or> Entrypoint s = Some ep \<and> ep \<noteq> []"
  then show "makeCommand s (Some img) rtc = makeCommand s (Some (img\<lparr>Config_Cmd := c'\<rparr>)) rtc"
    by (cases "Entrypoint s") (auto simp: makeCommand_unfold)
next
  assume "Entrypoint s = None \<and> Command s = [] \<and>
      (Config_Entrypoint img = [] \<or> Config_Entrypoint img = [[]]) \<and> Config_Cmd img = []"
  then show "makeCommand s (Some img) rtc
      = Error ''no command or entrypoint provided, and no CMD or ENTRYPOINT from image''"
    by (auto simp: makeCommand_unfold)
qed (auto simp: makeCommand_unfold split: option.splits)

theorem makeCommand_precedence_witness:
  "makeCommand (SpecGenerator_zero\<lparr>Entrypoint := Some [''/bin/sh'', ''-c''], Command := [''ls'']\<rparr>)
       (Some ImageData_example) None
     = Ok [''/bin/sh'', ''-c'', ''ls''] \<and>
   makeCommand (SpecGenerator_zero\<lparr>Entrypoint := Some [''/bin/sh'', ''-c''], Command := [''ls'']\<rparr>)
       (Some (ImageData_example\<lparr>Config_Entrypoint := [''/other'']\<rparr>)) None
     = Ok [''/bin/sh'', ''-c'', ''ls''] \<and>
   makeCommand (SpecGenerator_zero\<lparr>Entrypoint := Some [''/bin/sh'']\<rparr>)
       (Some ImageData_example) None
     = Ok [''/bin/sh''] \<and>
   makeCommand SpecGenerator_zero (Some ImageData_example) None = Ok [''/entry'', ''serve''] \<and>
   makeCommand (SpecGenerator_zero\<lparr>Command := [''ls'']\<rparr>) (Some ImageData_example) None
     = Ok [''/entry'', ''ls''] \<and>
   makeCommand (SpecGenerator_zero\<lparr>Entrypoint := Some [[]], Command := [''ls'']\<rparr>)
       (Some ImageData_example) None
     = Ok [''ls''] \<and>
   makeCommand (SpecGenerator_zero\<lparr>Entrypoint := Some [[]]\<rparr>) (Some ImageData_example) None
     = Error ''no command or entrypoint provided, and no CMD or ENTRYPOINT from image'' \<and>
   makeCommand SpecGenerator_zero None None
     = Error ''no command or entrypoint provided, and no CMD or ENTRYPOINT from image''"
proof -
  let ?img = ImageData_example
  let ?s1 = "SpecGenerator_zero\<lparr>Entrypoint := Some [''/bin/sh'', ''-c''], Command := [''ls'']\<rparr>"
  have a: "makeCommand ?s1 (Some ?img) None = Ok [''/bin/sh'', ''-c'', ''ls'']"
    using makeCommand_precedence [of ?s1 "[''/bin/sh'', ''-c'']" ?img None
        "Config_Entrypoint ?img" "Some ?img" "Config_Cmd ?img" "[]"]
    by (simp add: SpecGenerator_zero_def makeCommand_init_def)
  have b: "makeCommand ?s1 (Some ?img) None
      = makeCommand ?s1 (Some (?img\<lparr>Config_Entrypoint := [''/other'']\<rparr>)) None"
    using makeCommand_precedence [of ?s1 "[''/bin/sh'', ''-c'']" ?img None
        "[''/other'']" "Some ?img" "Config_Cmd ?img" "[]"]
    by (simp add: SpecGenerator_zero_def)
  let ?s2 = "SpecGenerator_zero\<lparr>Entrypoint := Some [''/bin/sh'']\<rparr>"
  have c: "makeCommand ?s2 (Some ?img) None = Ok [''/bin/sh'']"
    using makeCommand_precedence [of ?s2 "[''/bin/sh'']" ?img None
        "Config_Entrypoint ?img" "Some ?img" "Config_Cmd ?img" "[]"]
    by (simp add: SpecGenerator_zero_def makeCommand_init_def)
  have d: "makeCommand SpecGenerator_zero (Some ?img) None = Ok [''/entry'', ''serve'']"
    using makeCommand_precedence [of SpecGenerator_zero "[]" ?img None
        "Config_Entrypoint ?img" "Some ?img" "Config_Cmd ?img" "[]"]
    by (simp add: SpecGenerator_zero_def makeCommand_init_def ImageData_example_def)
  let ?s3 = "SpecGenerator_zero\<lparr>Command := [''ls'']\<rparr>"
  have e: "makeCommand ?s3 (Some ?img) None = Ok [''/entry'', ''ls'']"
    using makeCommand_precedence [of ?s3 "[]" ?img None
        "Config_Entrypoint ?img" "Some ?img" "Config_Cmd ?img" "[]"]
    by (simp add: SpecGenerator_zero_def makeCommand_init_def ImageData_example_def)
  let ?s4 = "SpecGenerator_zero\<lparr>Entrypoint := Some [[]], Command := [''ls'']\<rparr>"
  have f: "makeCommand ?s4 (Some ?img) None = Ok [''ls'']"
    using makeCommand_precedence [of ?s4 "[[]]" ?img None
        "Config_Entrypoint ?img" "Some ?img" "Config_Cmd ?img" "[]"]
    by (simp add: SpecGenerator_zero_def makeCommand_init_def)
  let ?s5 = "SpecGenerator_zero\<lparr>Entrypoint := Some [[]]\<rparr>"
  have g: "makeCommand ?s5 (Some ?img) None
      = Error ''no command or entrypoint provided, and no CMD or ENTRYPOINT from image''"
    using makeCommand_precedence [of ?s5 "[[]]" ?img None
        "Config_Entrypoint ?img" "Some ?img" "Config_Cmd ?img" "[]"]
    by (simp add: SpecGenerator_zero_def)
  have h: "makeCommand SpecGenerator_zero None None
      = Error ''no command or entrypoint provided, and no CMD or ENTRYPOINT from image''"
    using makeCommand_precedence [of SpecGenerator_zero "[]" ?img None
        "Config_Entrypoint ?img" None "Config_Cmd ?img" "[]"]
    by (simp add: SpecGenerator_zero_def)
  from a b c d e f g h show ?thesis by simp
qed

section \<open>Properties of hostname resolution\<close>

text \<open>
  Claim C7, as amended.  The hostname is computed with the precedence: the explicit
  hostname; else the pod's hostname when the UTS namespace comes from the pod; else the
  hostname of the container named by the UTS namespace when that container is found;
  else the host machine's hostname when the UTS or the network namespace is the host's
  and the host's name can be read; else it stays empty, which leaves it to the runtime
  default.  When namespace configuration succeeds, \<open>HOSTNAME\<close> is added to the process
  environment if and only if the user's environment has no \<open>HOSTNAME\<close> and an explicit
  hostname was given; a hostname inherited from the pod, a container or the host does not
  add it.
\<close>

theorem specConfigureNamespaces_hostname_env:
  "(Hostname s \<noteq> [] \<longrightarrow> specConfigureNamespaces_hostname s w = Ok (Hostname s)) \<and>
   (Hostname s = [] \<and> NSMode (UtsNS s) = FromPod \<longrightarrow>
      specConfigureNamespaces_hostname s w = Ok (pod_Hostname w)) \<and>
   (Hostname s = [] \<and> NSMode (UtsNS s) = FromContainer \<and>
      rt_LookupContainer_Hostname w (Value (UtsNS s)) = Ok h \<longrightarrow>
      specConfigureNamespaces_hostname s w = Ok h) \<and>
   (Hostname s = [] \<and> NSMode (UtsNS s) \<noteq> FromPod \<and> NSMode (UtsNS s) \<noteq> FromContainer \<and>
      (NSMode (UtsNS s) = Host \<or> NSMode (NetNS s) = Host) \<and> os_Hostname w = Ok h \<longrightarrow>
      specConfigureNamespaces_hostname s w = Ok h) \<and>
   (Hostname s = [] \<and> NSMode (UtsNS s) \<noteq> FromPod \<and> NSMode (UtsNS s) \<noteq> FromContainer \<and>
      NSMode (UtsNS s) \<noteq> Host \<and> NSMode (NetNS s) \<noteq> Host \<longrightarrow>
      specConfigureNamespaces_hostname s w = Ok []) \<and>
   (specConfigureNamespaces s g w = Ok g' \<longrightarrow>
      Config_Process_Env g' =
        (if Env s ''HOSTNAME'' = None \<and> Hostname s \<noteq> []
         then (Config_Process_Env g)(''HOSTNAME'' \<mapsto> Hostname s)
         else Config_Process_Env g))"
proof (intro conjI impI)
  assume "specConfigureNamespaces s g w = Ok g'"
  then show "Config_Process_Env g' =
        (if Env s ''HOSTNAME'' = None \<and> Hostname s \<noteq> []
         then (Config_Process_Env g)(''HOSTNAME'' \<mapsto> Hostname s)
         else Config_Process_Env g)"
    by (auto simp: specConfigureNamespaces_def specConfigureNamespaces_hostname_def
        RemoveHostname_def SetHostname_def AddProcessEnv_def Let_def
        split: outcome.splits if_splits)
qed (auto simp: specConfigureNamespaces_hostname_def Let_def)

theorem specConfigureNamespaces_hostname_env_witness:
  "specConfigureNamespaces_hostname (SpecGenerator_zero\<lparr>Hostname := ''web''\<rparr>)
       hostname_sources_example = Ok ''web'' \<and>
   specConfigureNamespaces_hostname
       (SpecGenerator_zero\<lparr>UtsNS := \<lparr>NSMode = FromPod, Value = []\<rparr>\<rparr>)
       hostname_sources_example = Ok ''podhost'' \<and>
   specConfigureNamespaces_hostname
       (SpecGenerator_zero\<lparr>UtsNS := \<lparr>NSMode = FromContainer, Value = ''dep''\<rparr>\<rparr>)
       hostname_sources_example = Ok ''dephost'' \<and>
   specConfigureNamespaces_hostname
       (SpecGenerator_zero\<lparr>NetNS := \<lparr>NSMode = Host, Value = []\<rparr>\<rparr>)
       hostname_sources_example = Ok ''machine'' \<and>
   specConfigureNamespaces_hostname SpecGenerator_zero hostname_sources_example = Ok [] \<and>
   Config_Process_Env
       (Generator_zero\<lparr>Config_Hostname := ''web'',
          Config_Process_Env := [''HOSTNAME'' \<mapsto> ''web'']\<rparr>) ''HOSTNAME'' = Some ''web''"
  using
    specConfigureNamespaces_hostname_env [of "SpecGenerator_zero\<lparr>Hostname := ''web''\<rparr>"
      hostname_sources_example "[]" Generator_zero
      "Generator_zero\<lparr>Config_Hostname := ''web'',
          Config_Process_Env := [''HOSTNAME'' \<mapsto> ''web'']\<rparr>"]
    specConfigureNamespaces_hostname_env [of
      "SpecGenerator_zero\<lparr>UtsNS := \<lparr>NSMode = FromPod, Value = []\<rparr>\<rparr>"
      hostname_sources_example "[]" Generator_zero Generator_zero]
    specConfigureNamespaces_hostname_env [of
      "SpecGenerator_zero\<lparr>UtsNS := \<lparr>NSMode = FromContainer, Value = ''dep''\<rparr>\<rparr>"
      hostname_sources_example "''dephost''" Generator_zero Generator_zero]
    specConfigureNamespaces_hostname_env [of
      "SpecGenerator_zero\<lparr>NetNS := \<lparr>NSMode = Host, Value = []\<rparr>\<rparr>"
      hostname_sources_example "''machine''" Generator_zero Generator_zero]
    specConfigureNamespaces_hostname_env [of SpecGenerator_zero
      hostname_sources_example "[]" Generator_zero Generator_zero]
  by (simp add: SpecGenerator_zero_def Namespace_zero_def hostname_sources_example_def
      Generator_zero_def)

text \<open>
  A container that shares the UTS namespace of a pod named \<open>podhost\<close>, with no explicit
  hostname and no \<open>HOSTNAME\<close> in its environment: the hostname is determined (it is the
  pod's), and the process environment stays without \<open>HOSTNAME\<close>.
\<close>

theorem specConfigureNamespaces_hostname_env_counterexample:
  "specConfigureNamespaces_hostname
       (SpecGenerator_zero\<lparr>UtsNS := \<lparr>NSMode = FromPod, Value = []\<rparr>\<rparr>)
       hostname_sources_example = Ok ''podhost'' \<and>
   Env (SpecGenerator_zero\<lparr>UtsNS := \<lparr>NSMode = FromPod, Value = []\<rparr>\<rparr>) ''HOSTNAME'' = None \<and>
   specConfigureNamespaces
       (SpecGenerator_zero\<lparr>UtsNS := \<lparr>NSMode = FromPod, Value = []\<rparr>\<rparr>)
       Generator_zero hostname_sources_example
     = Ok \<lparr>Config_Hostname = ''podhost'', Config_Process_Env = Map.empty, Config_Mounts = [],
           Config_Root_Path = [], Config_Annotations = Map.empty\<rparr>"
  by (simp add: specConfigureNamespaces_def specConfigureNamespaces_hostname_def
      SpecGenerator_zero_def Namespace_zero_def hostname_sources_example_def
      Generator_zero_def RemoveHostname_def SetHostname_def)

section \<open>Properties of preparation\<close>

text \<open>
  Claim C1.  The claim asks that \<open>prepare\<close> return the network failure when network
  setup fails and the storage mount succeeds.  On the input below the network goroutine
  fails with "network setup failed" and the storage goroutine succeeds; in both orders of
  the two critical sections \<open>prepare\<close> returns \<open>nil\<close>.  The storage-mount result
  (\<open>Mounted\<close>, \<open>Mountpoint\<close>) is in the state, as the claim says.
\<close>

theorem prepare_netns_failure_returns_nil:
  "prepare_netns ContainerConfig_example prepare_calls_netns_fails
       (ContainerState_zero\<lparr>State := ContainerStateConfigured\<rparr>)
     = (Some ''network setup failed'', ContainerState_zero\<lparr>State := ContainerStateConfigured\<rparr>) \<and>
   prepare ContainerConfig_example prepare_calls_netns_fails True
       (ContainerState_zero\<lparr>State := ContainerStateConfigured\<rparr>)
     = (None, ContainerState_zero\<lparr>State := ContainerStateConfigured, Mounted := True,
                Mountpoint := ''/mnt/c1''\<rparr>) \<and>
   prepare ContainerConfig_example prepare_calls_netns_fails False
       (ContainerState_zero\<lparr>State := ContainerStateConfigured\<rparr>)
     = (None, ContainerState_zero\<lparr>State := ContainerStateConfigured, Mounted := True,
                Mountpoint := ''/mnt/c1''\<rparr>)"
  by (simp add: prepare_def prepare_netns_def prepare_mount_def ContainerConfig_example_def
      prepare_calls_netns_fails_def ContainerState_zero_def)

text \<open>
  The same for every input: whenever the network goroutine fails and the storage mount
  succeeds, \<open>prepare\<close> returns what \<open>c.save()\<close> returns, and the state holds the mount.
\<close>

lemma prepare_netns_failure_general:
  assumes "CreateNetNS cfg" "NetworkJail st = []" "\<not> PostConfigureNetNS cfg"
    and "createNetNS_result w = (jail, status, Some e)"
    and "mountStorage_result w = (mountPoint, None)"
  shows "prepare cfg w netns_first st
    = (save_result w, st\<lparr>Mounted := True, Mountpoint := mountPoint\<rparr>)"
  using assms
  by (cases "save_result w")
    (simp_all add: prepare_def prepare_netns_def prepare_mount_def)

section \<open>Properties of checkpoint\<close>

lemma checkpoint_dumped_success:
  assumes "checkpoint_dumped cfg w options d0 st0 tr0 = ((stats, d, None), st', tr)"
    and "\<not> KeepRunning options" "\<not> PreCheckPoint options"
  shows "\<exists>st1. State st1 = ContainerStateStopped \<and> Checkpointed st1 \<and>
      Call_cleanup st1 \<in> set tr \<and> fst (cleanup_result w st1) = None \<and>
      State st' = State (snd (cleanup_result w st1)) \<and>
      Checkpointed st' = Checkpointed (snd (cleanup_result w st1))"
proof -
  let ?st1 = "st0\<lparr>State := ContainerStateStopped, Checkpointed := True,
      CheckpointedTime := time_Now w 0, Restored := False, RestoredTime := 0\<rparr>"
  have "Call_cleanup ?st1 \<in> set tr \<and> fst (cleanup_result w ?st1) = None \<and>
      State st' = State (snd (cleanup_result w ?st1)) \<and>
      Checkpointed st' = Checkpointed (snd (cleanup_result w ?st1))"
    using assms unfolding checkpoint_dumped_def Let_def
    by (auto split: if_splits prod.splits option.splits)
  moreover have "State ?st1 = ContainerStateStopped \<and> Checkpointed ?st1" by simp
  ultimately show ?thesis by blast
qed

text \<open>
  Claim C2, as amended.  \<open>checkpoint\<close> returns an error, leaves the state as it was
  and calls neither the launcher's dump nor anything else, whenever the container is not
  Running, or the dump engine or the launcher lack checkpoint capability, or the container
  is auto-removed and no export target was given.  When \<open>checkpoint\<close> succeeds and
  neither keep-running nor pre-checkpoint was requested, the container was Running, its
  state was set to Stopped with \<open>Checkpointed = true\<close>, \<open>cleanup\<close> was called on that
  state and succeeded, and the phase and the \<open>Checkpointed\<close> flag of the final state are
  those \<open>cleanup\<close> left.
\<close>

theorem checkpoint_guards_and_stop:
  "(State st \<noteq> ContainerStateRunning \<or>
    \<not> CheckForCriu (support w) (MinCriuVersion (support w)) \<or>
    \<not> SupportsCheckpoint (support w) \<or>
    (AutoRemove cfg \<and> TargetFile options = []) \<longrightarrow>
      (\<exists>err. checkpoint cfg w options st = ((None, 0, Some err), st, []))) \<and>
   (checkpoint cfg w options st = ((stats, d, None), st', tr) \<and>
    \<not> KeepRunning options \<and> \<not> PreCheckPoint options \<longrightarrow>
      State st = ContainerStateRunning \<and>
      (\<exists>st1. State st1 = ContainerStateStopped \<and> Checkpointed st1 \<and>
         Call_cleanup st1 \<in> set tr \<and> fst (cleanup_result w st1) = None \<and>
         State st' = State (snd (cleanup_result w st1)) \<and>
         Checkpointed st' = Checkpointed (snd (cleanup_result w st1))))"
proof (intro conjI impI)
  assume "State st \<noteq> ContainerStateRunning \<or>
    \<not> CheckForCriu (support w) (MinCriuVersion (support w)) \<or>
    \<not> SupportsCheckpoint (support w) \<or>
    (AutoRemove cfg \<and> TargetFile options = [])"
  then show "\<exists>err. checkpoint cfg w options st = ((None, 0, Some err), st, [])"
    by (auto simp: checkpoint_def checkpointRestoreSupported_def errors_Wrapf_def)
next
  assume a: "checkpoint cfg w options st = ((stats, d, None), st', tr) \<and>
    \<not> KeepRunning options \<and> \<not> PreCheckPoint options"
  then show "State st = ContainerStateRunning"
    by (auto simp: checkpoint_def errors_Wrapf_def split: option.splits if_splits)
  from a obtain d0 st0 where
    dumped: "checkpoint_dumped cfg w options d0 st0 [Call_CheckpointContainer]
       = ((stats, d, None), st', tr)"
    by (auto simp: checkpoint_def errors_Wrapf_def Let_def
        split: option.splits if_splits prod.splits)
  from a have "\<not> KeepRunning options" "\<not> PreCheckPoint options" by simp_all
  from checkpoint_dumped_success [OF dumped this]
  show "\<exists>st1. State st1 = ContainerStateStopped \<and> Checkpointed st1 \<and>
         Call_cleanup st1 \<in> set tr \<and> fst (cleanup_result w st1) = None \<and>
         State st' = State (snd (cleanup_result w st1)) \<and>
         Checkpointed st' = Checkpointed (snd (cleanup_result w st1))" .
qed

theorem checkpoint_guards_and_stop_witness:
  "snd (checkpoint ContainerConfig_example checkpoint_calls_example
          ContainerCheckpointOptions_zero ContainerState_checkpointed)
     = (ContainerState_checkpointed, []) \<and>
   \<not> KeepRunning ContainerCheckpointOptions_zero \<and>
   \<not> PreCheckPoint ContainerCheckpointOptions_zero \<and>
   fst (checkpoint ContainerConfig_example checkpoint_calls_example
          ContainerCheckpointOptions_zero ContainerState_running) = (None, 5, None) \<and>
   State ContainerState_running = ContainerStateRunning \<and>
   State (fst (snd (checkpoint ContainerConfig_example checkpoint_calls_example
          ContainerCheckpointOptions_zero ContainerState_running))) = ContainerStateExited \<and>
   Checkpointed (fst (snd (checkpoint ContainerConfig_example checkpoint_calls_example
          ContainerCheckpointOptions_zero ContainerState_running)))"
proof -
  let ?cfg = ContainerConfig_example and ?w = checkpoint_calls_example
    and ?o = ContainerCheckpointOptions_zero
  have "State ContainerState_checkpointed \<noteq> ContainerStateRunning"
    by (simp add: ContainerState_checkpointed_def ContainerState_zero_def)
  with checkpoint_guards_and_stop [of ContainerState_checkpointed ?w ?cfg ?o None 0
      ContainerState_checkpointed "[]"]
  obtain err where "checkpoint ?cfg ?w ?o ContainerState_checkpointed
      = ((None, 0, Some err), ContainerState_checkpointed, [])"
    by blast
  then have a: "snd (checkpoint ?cfg ?w ?o ContainerState_checkpointed)
      = (ContainerState_checkpointed, [])"
    by simp
  have o: "\<not> KeepRunning ?o" "\<not> PreCheckPoint ?o"
    by (simp_all add: ContainerCheckpointOptions_zero_def)
  have f: "fst (checkpoint ?cfg ?w ?o ContainerState_running) = (None, 5, None)"
    by (simp add: checkpoint_def checkpoint_dumped_def checkpointRestoreSupported_def
        checkpoint_criuStatistics_def ContainerConfig_example_def
        checkpoint_calls_example_def cr_support_example_def cleanup_example_def
        ContainerCheckpointOptions_zero_def ContainerState_running_def
        ContainerState_zero_def Let_def)
  then obtain st' tr where
    r: "checkpoint ?cfg ?w ?o ContainerState_running = ((None, 5, None), st', tr)"
    by (cases "checkpoint ?cfg ?w ?o ContainerState_running") auto
  from checkpoint_guards_and_stop [of ContainerState_running ?w ?cfg ?o None 5 st' tr] r o
  obtain st1 where s: "State ContainerState_running = ContainerStateRunning"
    "State st1 = ContainerStateStopped" "Checkpointed st1"
    "State st' = State (snd (cleanup_result ?w st1))"
    "Checkpointed st' = Checkpointed (snd (cleanup_result ?w st1))"
    by blast
  then have "State st' = ContainerStateExited" "Checkpointed st'"
    by (simp_all add: checkpoint_calls_example_def cleanup_example_def)
  with a o f r s(1) show ?thesis by simp
qed

text \<open>
  A pre-checkpoint of a running container without keep-running: every collaborator
  succeeds and \<open>checkpoint\<close> returns no error, yet the container stays Running with
  \<open>Checkpointed = false\<close>, and \<open>cleanup\<close> is not called.
\<close>

theorem checkpoint_guards_and_stop_counterexample:
  "\<not> KeepRunning (ContainerCheckpointOptions_zero\<lparr>PreCheckPoint := True\<rparr>) \<and>
   checkpoint ContainerConfig_example checkpoint_calls_example
       (ContainerCheckpointOptions_zero\<lparr>PreCheckPoint := True\<rparr>) ContainerState_running
     = ((None, 5, None),
        ContainerState_running\<lparr>CheckpointLog := ''/bundle/dump.log'',
          state_CheckpointPath := ''/bundle/checkpoint'', FinishedTime := 100\<rparr>,
        [Call_CheckpointContainer,
         Call_save (ContainerState_running\<lparr>CheckpointLog := ''/bundle/dump.log'',
           state_CheckpointPath := ''/bundle/checkpoint'', FinishedTime := 100\<rparr>)]) \<and>
   State (ContainerState_running\<lparr>CheckpointLog := ''/bundle/dump.log'',
          state_CheckpointPath := ''/bundle/checkpoint'', FinishedTime := 100\<rparr>)
     = ContainerStateRunning \<and>
   \<not> Checkpointed (ContainerState_running\<lparr>CheckpointLog := ''/bundle/dump.log'',
          state_CheckpointPath := ''/bundle/checkpoint'', FinishedTime := 100\<rparr>)"
  by (simp add: checkpoint_def checkpoint_dumped_def checkpointRestoreSupported_def
      checkpoint_criuStatistics_def ContainerConfig_example_def
      checkpoint_calls_example_def cr_support_example_def
      ContainerCheckpointOptions_zero_def ContainerState_running_def
      ContainerState_zero_def Let_def filepath_Join_def filepath_Clean_def Clean_step_def)

section \<open>Properties of restore\<close>

lemma restore_checks_not_nil: "restore_checks w options st \<noteq> Some None"
  unfolding restore_checks_def Let_def
  by (auto simp: errors_Wrapf_def split: option.splits if_splits stat_result.splits)

text \<open>
  The first half of claim C3 holds: a container that is neither Configured nor Exited,
  or whose inventory file does not exist, makes \<open>restore\<close> return an error with the
  state unchanged and no collaborator called.
\<close>

lemma restore_rejects:
  assumes "\<not> ensureState st [ContainerStateConfigured, ContainerStateExited] \<or>
           Stat_inventory_result w = Stat_not_exist msg"
  shows "\<exists>e. restore cfg w options st pno = restore_return (Some e) st pno []"
proof -
  from assms have "restore_checks w options st \<noteq> None"
    unfolding restore_checks_def Let_def
    by (auto split: option.splits)
  then obtain e where e: "restore_checks w options st = Some e" by auto
  with restore_checks_not_nil [of w options st] obtain m where "e = Some m"
    by (cases e) auto
  with e have "restore cfg w options st pno = restore_return (Some m) st pno []"
    by (simp add: restore_def)
  then show ?thesis by blast
qed

text \<open>
  Claim C3.  The claim asks that every restore that succeeds end in state Running with
  \<open>Restored = true\<close> and \<open>Checkpointed = false\<close>.  On the input below (import from
  an archive, one named volume whose mount point is reported empty) \<open>restore\<close> returns
  a \<open>nil\<close> error from inside the volume loop, because \<open>errors.Wrapf\<close> is applied to
  the \<open>nil\<close> error of \<open>volume.MountPoint()\<close>; the launcher was never asked to create
  the container and the state is still Exited, not restored, and checkpointed.
\<close>

theorem restore_unmounted_volume_returns_nil:
  "retErr (restore ContainerConfig_volume restore_calls_unmounted_volume
       (ContainerCheckpointOptions_zero\<lparr>TargetFile := ''/tmp/ckpt.tar''\<rparr>)
       ContainerState_checkpointed Map.empty) = None \<and>
   State (state_after (restore ContainerConfig_volume restore_calls_unmounted_volume
       (ContainerCheckpointOptions_zero\<lparr>TargetFile := ''/tmp/ckpt.tar''\<rparr>)
       ContainerState_checkpointed Map.empty)) = ContainerStateExited \<and>
   \<not> Restored (state_after (restore ContainerConfig_volume restore_calls_unmounted_volume
       (ContainerCheckpointOptions_zero\<lparr>TargetFile := ''/tmp/ckpt.tar''\<rparr>)
       ContainerState_checkpointed Map.empty)) \<and>
   Checkpointed (state_after (restore ContainerConfig_volume restore_calls_unmounted_volume
       (ContainerCheckpointOptions_zero\<lparr>TargetFile := ''/tmp/ckpt.tar''\<rparr>)
       ContainerState_checkpointed Map.empty)) \<and>
   Call_CreateContainer \<notin> set (calls (restore ContainerConfig_volume
       restore_calls_unmounted_volume
       (ContainerCheckpointOptions_zero\<lparr>TargetFile := ''/tmp/ckpt.tar''\<rparr>)
       ContainerState_checkpointed Map.empty))"
proof -
  have "restore ContainerConfig_volume restore_calls_unmounted_volume
       (ContainerCheckpointOptions_zero\<lparr>TargetFile := ''/tmp/ckpt.tar''\<rparr>)
       ContainerState_checkpointed Map.empty
     = restore_return None
         (ContainerState_checkpointed\<lparr>RestoreLog := ''/bundle/restore.log'',
            state_CheckpointPath := ''/bundle/checkpoint'', Mounted := True,
            Mountpoint := ''/mnt/c1'', NetworkJail := ''c1-vnet'',
            NetworkStatus := Map.empty\<rparr>)
         [''podman'' \<mapsto> PerNetworkOptions_zero\<lparr>InterfaceName := ''eth0'',
            StaticMAC := Some ''aa:bb:cc:dd:ee:ff'', StaticIPs := [''10.88.0.5'']\<rparr>]
         [Call_prepare, Call_saveSpec (Generator_zero\<lparr>Config_Root_Path := ''/mnt/c1''\<rparr>)]"
    by (simp add: restore_def restore_checks_def restore_networks_def restore_perNetOpts_def
        restore_spec_def restore_return_def prepare_def prepare_netns_def prepare_mount_def
        checkpointRestoreSupported_def ensureState_def errors_Wrapf_def SetRootPath_def
        ContainerConfig_volume_def ContainerConfig_example_def
        restore_calls_unmounted_volume_def restore_calls_example_def
        volume_calls_example_def prepare_calls_example_def cr_support_example_def
        NetworkStatus_example_def PerNetworkOptions_zero_def Generator_zero_def
        ContainerCheckpointOptions_zero_def ContainerState_checkpointed_def
        ContainerState_zero_def Let_def fun_eq_iff
        filepath_Join_def filepath_Clean_def Clean_step_def)
  then show ?thesis
    by (simp add: restore_return_def ContainerState_checkpointed_def ContainerState_zero_def)
qed

section \<open>Properties of the network options of a restore\<close>

lemma restore_return_perNetworkOpts:
  "perNetworkOpts_after (restore_return e st pno tr) = pno"
  by (simp add: restore_return_def)

lemma restore_created_perNetworkOpts:
  "perNetworkOpts_after (restore_created w options duration st pno tr) = pno"
  unfolding restore_created_def Let_def
  by (simp add: restore_return_def split: prod.splits option.splits)

lemma restore_spec_perNetworkOpts:
  "perNetworkOpts_after (restore_spec cfg w options st pno tr) = pno"
  unfolding restore_spec_def Let_def
  apply (simp only: if_distrib [of perNetworkOpts_after]
      option.case_distrib [of perNetworkOpts_after]
      prod.case_distrib [of perNetworkOpts_after]
      restore_created_perNetworkOpts restore_return_perNetworkOpts)
  apply (simp only: if_cancel option.case_eq_if prod.case_eq_if)
  done

lemma restore_body_perNetworkOpts:
  "perNetworkOpts_after
     (case prepare cfg pw first st of
        (Some err, st) \<Rightarrow> restore_return (Some err) st pno [Call_prepare]
      | (None, st) \<Rightarrow> restore_spec cfg w options st pno [Call_prepare]) = pno"
  by (simp add: restore_spec_perNetworkOpts restore_return_perNetworkOpts
      split: prod.splits option.splits)

lemma restore_perNetworkOpts:
  "perNetworkOpts_after (restore cfg w options st pno) =
     (case restore_checks w options st of
        Some e \<Rightarrow> pno
      | None \<Rightarrow> (case restore_networks w options pno of Inl e \<Rightarrow> pno | Inr pno' \<Rightarrow> pno'))"
proof (cases "restore_checks w options st")
  case None
  show ?thesis
  proof (cases "restore_networks w options pno")
    case (Inl e)
    with None show ?thesis
      by (simp add: restore_def restore_return_perNetworkOpts)
  next
    case (Inr pno')
    with None show ?thesis
      unfolding restore_def Let_def
      by (simp add: restore_body_perNetworkOpts)
  qed
next
  case (Some e)
  then show ?thesis by (simp add: restore_def restore_return_perNetworkOpts)
qed

text \<open>
  Claim C8, as amended.  When the caller requests a new name, or sets both
  \<open>IgnoreStaticIP\<close> and \<open>IgnoreStaticMAC\<close>, or the snapshot cannot be read, the block
  leaves the per-network options as they were, and with a new name the whole of
  \<open>restore\<close> does: neither MAC nor IP addresses of the snapshot are applied.  When no
  new name is requested, the snapshot was read, neither of the two options is set and
  the container's networks can be listed, every network of the container gets the MAC
  address and the IP addresses of the first interface the snapshot has for it.  (Runs
  with exactly one of the two options set are not covered.)
\<close>

theorem restore_networks_snapshot:
  "(Name options \<noteq> [] \<longrightarrow>
      restore_networks w options pno = Inr pno \<and>
      perNetworkOpts_after (restore cfg w options st pno) = pno) \<and>
   (IgnoreStaticIP options \<and> IgnoreStaticMAC options \<longrightarrow>
      restore_networks w options pno = Inr pno) \<and>
   (snd (ReadJSONFile_result w) \<noteq> None \<longrightarrow> restore_networks w options pno = Inr pno) \<and>
   (Name options = [] \<and> \<not> IgnoreStaticIP options \<and> \<not> IgnoreStaticMAC options \<and>
    ReadJSONFile_result w = (netStatus, None) \<and> networks_result w = (networkOpts, None) \<and>
    networkOpts network = Some perNetOpts \<and> netStatus network = Some block \<and>
    Interfaces block = (name, netInt) # others \<longrightarrow>
      (\<exists>pno'. restore_networks w options pno = Inr pno' \<and>
         pno' network = Some (perNetOpts\<lparr>StaticMAC := MacAddress netInt,
           StaticIPs := map IPNet_IP (Subnets netInt), InterfaceName := name\<rparr>)))"
proof (intro conjI impI)
  assume "Name options \<noteq> []"
  then show "restore_networks w options pno = Inr pno"
    by (simp add: restore_networks_def split: prod.splits)
  then show "perNetworkOpts_after (restore cfg w options st pno) = pno"
    by (simp add: restore_perNetworkOpts split: option.splits)
next
  assume "IgnoreStaticIP options \<and> IgnoreStaticMAC options"
  then show "restore_networks w options pno = Inr pno"
    by (simp add: restore_networks_def split: prod.splits)
next
  assume "snd (ReadJSONFile_result w) \<noteq> None"
  then show "restore_networks w options pno = Inr pno"
    by (auto simp: restore_networks_def split: prod.splits)
next
  assume a: "Name options = [] \<and> \<not> IgnoreStaticIP options \<and> \<not> IgnoreStaticMAC options \<and>
    ReadJSONFile_result w = (netStatus, None) \<and> networks_result w = (networkOpts, None) \<and>
    networkOpts network = Some perNetOpts \<and> netStatus network = Some block \<and>
    Interfaces block = (name, netInt) # others"
  then have "restore_networks w options pno =
      Inr (\<lambda>network. case networkOpts network of
             None \<Rightarrow> None
           | Some perNetOpts \<Rightarrow> Some (restore_perNetOpts options netStatus network perNetOpts))"
    by (simp add: restore_networks_def)
  moreover from a have "restore_perNetOpts options netStatus network perNetOpts
      = perNetOpts\<lparr>StaticMAC := MacAddress netInt,
           StaticIPs := map IPNet_IP (Subnets netInt), InterfaceName := name\<rparr>"
    by (simp add: restore_perNetOpts_def)
  ultimately show "\<exists>pno'. restore_networks w options pno = Inr pno' \<and>
         pno' network = Some (perNetOpts\<lparr>StaticMAC := MacAddress netInt,
           StaticIPs := map IPNet_IP (Subnets netInt), InterfaceName := name\<rparr>)"
    using a by simp
qed

theorem restore_networks_snapshot_witness:
  "restore_networks restore_calls_example (ContainerCheckpointOptions_zero\<lparr>Name := ''copy''\<rparr>)
       [''podman'' \<mapsto> PerNetworkOptions_zero]
     = Inr [''podman'' \<mapsto> PerNetworkOptions_zero] \<and>
   perNetworkOpts_after (restore ContainerConfig_example restore_calls_example
       (ContainerCheckpointOptions_zero\<lparr>Name := ''copy''\<rparr>) ContainerState_checkpointed
       [''podman'' \<mapsto> PerNetworkOptions_zero]) ''podman'' = Some PerNetworkOptions_zero \<and>
   perNetworkOpts_after (restore ContainerConfig_example restore_calls_example
       ContainerCheckpointOptions_zero ContainerState_checkpointed
       [''podman'' \<mapsto> PerNetworkOptions_zero]) ''podman''
     = Some \<lparr>StaticIPs = [''10.88.0.5''], StaticMAC = Some ''aa:bb:cc:dd:ee:ff'',
             InterfaceName = ''eth0'', Aliases = []\<rparr>"
proof -
  let ?w = restore_calls_example and ?cfg = ContainerConfig_example
    and ?st = ContainerState_checkpointed and ?pno = "[''podman'' \<mapsto> PerNetworkOptions_zero]"
  let ?named = "ContainerCheckpointOptions_zero\<lparr>Name := ''copy''\<rparr>"
  let ?eth0 = "\<lparr>Subnets = [\<lparr>IPNet_IP = ''10.88.0.5'', Gateway = ''10.88.0.1''\<rparr>],
      MacAddress = Some ''aa:bb:cc:dd:ee:ff''\<rparr>"
  have n: "Name ?named \<noteq> []" by simp
  from restore_networks_snapshot [of ?named ?w ?pno ?cfg ?st Map.empty Map.empty "[]"
      PerNetworkOptions_zero "\<lparr>Interfaces = []\<rparr>" "[]" ?eth0 "[]"] n
  have a: "restore_networks ?w ?named ?pno = Inr ?pno"
    and b: "perNetworkOpts_after (restore ?cfg ?w ?named ?st ?pno) = ?pno"
    by blast+
  have "\<exists>pno'. restore_networks ?w ContainerCheckpointOptions_zero ?pno = Inr pno' \<and>
      pno' ''podman'' = Some (PerNetworkOptions_zero\<lparr>StaticMAC := MacAddress ?eth0,
        StaticIPs := map IPNet_IP (Subnets ?eth0), InterfaceName := ''eth0''\<rparr>)"
    using restore_networks_snapshot [of ContainerCheckpointOptions_zero ?w ?pno ?cfg ?st
        NetworkStatus_example ?pno "''podman''" PerNetworkOptions_zero
        "\<lparr>Interfaces = [(''eth0'', ?eth0)]\<rparr>" "''eth0''" ?eth0 "[]"]
    by (simp add: ContainerCheckpointOptions_zero_def restore_calls_example_def
        NetworkStatus_example_def)
  then obtain pno' where
    c: "restore_networks ?w ContainerCheckpointOptions_zero ?pno = Inr pno'"
    and d: "pno' ''podman'' = Some \<lparr>StaticIPs = [''10.88.0.5''],
        StaticMAC = Some ''aa:bb:cc:dd:ee:ff'', InterfaceName = ''eth0'', Aliases = []\<rparr>"
    by (auto simp: PerNetworkOptions_zero_def)
  have "restore_checks ?w ContainerCheckpointOptions_zero ?st = None"
    by (simp add: restore_checks_def checkpointRestoreSupported_def ensureState_def
        restore_calls_example_def cr_support_example_def ContainerCheckpointOptions_zero_def
        ContainerState_checkpointed_def ContainerState_zero_def)
  with c d have "perNetworkOpts_after (restore ?cfg ?w ContainerCheckpointOptions_zero ?st ?pno)
      ''podman'' = Some \<lparr>StaticIPs = [''10.88.0.5''],
        StaticMAC = Some ''aa:bb:cc:dd:ee:ff'', InterfaceName = ''eth0'', Aliases = []\<rparr>"
    by (simp add: restore_perNetworkOpts)
  with a b show ?thesis by simp
qed

text \<open>
  No new name is requested, the snapshot is read, and both \<open>IgnoreStaticIP\<close> and
  \<open>IgnoreStaticMAC\<close> are set: the per-network options stay as they were, without the
  MAC and IP addresses of the snapshot.
\<close>

theorem restore_networks_snapshot_counterexample:
  "Name (ContainerCheckpointOptions_zero\<lparr>IgnoreStaticIP := True, IgnoreStaticMAC := True\<rparr>) = [] \<and>
   ReadJSONFile_result restore_calls_example = (NetworkStatus_example, None) \<and>
   restore_networks restore_calls_example
       (ContainerCheckpointOptions_zero\<lparr>IgnoreStaticIP := True, IgnoreStaticMAC := True\<rparr>)
       [''podman'' \<mapsto> PerNetworkOptions_zero]
     = Inr [''podman'' \<mapsto> PerNetworkOptions_zero] \<and>
   perNetworkOpts_after (restore ContainerConfig_example restore_calls_example
       (ContainerCheckpointOptions_zero\<lparr>IgnoreStaticIP := True, IgnoreStaticMAC := True\<rparr>)
       ContainerState_checkpointed [''podman'' \<mapsto> PerNetworkOptions_zero]) ''podman''
     = Some PerNetworkOptions_zero"
  by (simp add: restore_perNetworkOpts restore_networks_def restore_checks_def
      checkpointRestoreSupported_def ensureState_def restore_calls_example_def
      cr_support_example_def ContainerCheckpointOptions_zero_def
      ContainerState_checkpointed_def ContainerState_zero_def)

section \<open>Properties of named volumes\<close>

text \<open>
  For every named volume with the overlay flag and exactly one of the two fragments,
  once the volume is found and \<open>overlay.TempDir\<close> has succeeded, the loop body is a
  \<open>return nil, nil\<close>: no specification and no error.
\<close>

lemma generateSpec_namedVolume_lone_fragment:
  assumes "GetVolume_result (nv_volume_calls w) (vol_Name namedVol) = None"
    and "MountPoint_result (nv_volume_calls w) (vol_Name namedVol) = (mountPoint, None)"
    and "generateSpec_overlayOptions (vol_Options namedVol) (False, [], [])
           = Continue (True, upperDir, workDir)"
    and "overlay_TempDir_result w = (contentDir, None)"
    and "(upperDir \<noteq> [] \<and> workDir = []) \<or> (upperDir = [] \<and> workDir \<noteq> [])"
  shows "generateSpec_namedVolume w cfg namedVol g = Return None"
  using assms by (auto simp: generateSpec_namedVolume_def errors_Wrapf_def)

text \<open>
  A volume is turned into an overlay mount only when both fragments or neither are given.
\<close>

lemma generateSpec_namedVolume_overlay_paired:
  assumes "generateSpec_namedVolume w cfg namedVol g = Continue g'"
    and "generateSpec_overlayOptions (vol_Options namedVol) (False, [], [])
           = Continue (True, upperDir, workDir)"
  shows "(upperDir = []) = (workDir = [])"
  using assms unfolding generateSpec_namedVolume_def
  by (auto split: option.splits prod.splits if_splits flow.splits)

text \<open>
  Claim C5.  The claim asks that spec generation report a configuration error for a
  named volume with option \<open>O\<close> and only one of \<open>upperdir\<close> and \<open>workdir\<close>.  For the
  volume below, with options \<open>O\<close> and \<open>upperdir=/upper\<close>, the loop finds the overlay flag,
  the upper directory and no work directory, and the body of the named-volume loop
  returns \<open>nil\<close> for the error, so that \<open>generateSpec\<close> returns no specification and no
  error.
\<close>

theorem generateSpec_lone_upperdir_returns_nil:
  "generateSpec_overlayOptions (vol_Options ContainerNamedVolume_upper_only) (False, [], [])
     = Continue (True, ''/upper'', []) \<and>
   generateSpec_namedVolume namedVolume_calls_example ContainerConfig_example
       ContainerNamedVolume_upper_only Generator_zero = Return None \<and>
   generateSpec_namedVolumes namedVolume_calls_example ContainerConfig_example
       [ContainerNamedVolume_upper_only] Generator_zero = Return None"
proof -
  have a: "generateSpec_overlayOptions (vol_Options ContainerNamedVolume_upper_only)
      (False, [], []) = Continue (True, ''/upper'', [])"
    by (simp add: ContainerNamedVolume_upper_only_def strings_SplitN2_def Let_def)
  have b: "generateSpec_namedVolume namedVolume_calls_example ContainerConfig_example
       ContainerNamedVolume_upper_only Generator_zero = Return None"
    by (rule generateSpec_namedVolume_lone_fragment [OF _ _ a])
      (simp_all add: namedVolume_calls_example_def volume_calls_example_def)
  from a b show ?thesis by simp
qed

section \<open>Properties of the bind-mount map\<close>

lemma makeBindMounts_subscriptions_keeps:
  "bindMounts k = Some v \<Longrightarrow> makeBindMounts_subscriptions mounts bindMounts k = Some v"
proof (induction mounts arbitrary: bindMounts)
  case Nil
  then show ?case by simp
next
  case (Cons mount rest)
  show ?case
  proof (cases "bindMounts (Destination mount) = None")
    case True
    with Cons.prems have "Destination mount \<noteq> k" by auto
    with Cons.prems have "(bindMounts(Destination mount \<mapsto> Source mount)) k = Some v"
      by simp
    then have "makeBindMounts_subscriptions rest
        (bindMounts(Destination mount \<mapsto> Source mount)) k = Some v"
      by (rule Cons.IH [of "bindMounts(Destination mount \<mapsto> Source mount)"])
    with True show ?thesis by simp
  next
    case False
    from Cons.prems have "makeBindMounts_subscriptions rest bindMounts k = Some v"
      by (rule Cons.IH [of bindMounts])
    with False show ?thesis by auto
  qed
qed

lemma MountExists_append:
  "MountExists (ms @ [m]) d = (MountExists ms d \<or> Destination m = d)"
  by (auto simp: MountExists_def list_ex_iff)

lemma generateSpec_bindMounts_distinct:
  "distinct order \<Longrightarrow>
   generateSpec_bindMounts bindMounts order (g, msgs) =
     (g\<lparr>Config_Mounts := Config_Mounts g @
          map (\<lambda>d. \<lparr>Destination = d, Type = ''nullfs'', Source = the (bindMounts d),
                     Options = []\<rparr>)
            (filter (\<lambda>d. bindMounts d \<noteq> None \<and> \<not> MountExists (Config_Mounts g) d) order)\<rparr>,
      msgs @ map (\<lambda>d. ''User mount overriding libpod mount at '' @ d)
            (filter (\<lambda>d. bindMounts d \<noteq> None \<and> MountExists (Config_Mounts g) d) order))"
proof (induction order arbitrary: g msgs)
  case Nil
  then show ?case by simp
next
  case (Cons dstPath rest)
  then have d: "distinct rest" and n: "dstPath \<notin> set rest" by simp_all
  show ?case
  proof (cases "bindMounts dstPath")
    case None
    then show ?thesis using Cons.IH [OF d] by simp
  next
    case (Some srcPath)
    show ?thesis
    proof (cases "MountExists (Config_Mounts g) dstPath")
      case True
      with Some show ?thesis using Cons.IH [OF d] by simp
    next
      case False
      let ?new = "\<lparr>Destination = dstPath, Type = ''nullfs'', Source = srcPath, Options = []\<rparr>"
      have same: "\<And>d. d \<in> set rest \<Longrightarrow>
          MountExists (Config_Mounts (AddMount ?new g)) d = MountExists (Config_Mounts g) d"
        using n by (auto simp: AddMount_def MountExists_append)
      have f1: "filter (\<lambda>d. bindMounts d \<noteq> None \<and>
            \<not> MountExists (Config_Mounts (AddMount ?new g)) d) rest
          = filter (\<lambda>d. bindMounts d \<noteq> None \<and> \<not> MountExists (Config_Mounts g) d) rest"
        by (rule filter_cong) (simp_all add: same)
      have f2: "filter (\<lambda>d. bindMounts d \<noteq> None \<and>
            MountExists (Config_Mounts (AddMount ?new g)) d) rest
          = filter (\<lambda>d. bindMounts d \<noteq> None \<and> MountExists (Config_Mounts g) d) rest"
        by (rule filter_cong) (simp_all add: same)
      have step: "generateSpec_bindMounts bindMounts (dstPath # rest) (g, msgs)
          = generateSpec_bindMounts bindMounts rest (AddMount ?new g, msgs)"
        using Some False by simp
      have "generateSpec_bindMounts bindMounts rest (AddMount ?new g, msgs)
          = ((AddMount ?new g)\<lparr>Config_Mounts := Config_Mounts (AddMount ?new g) @
               map (\<lambda>d. \<lparr>Destination = d, Type = ''nullfs'', Source = the (bindMounts d),
                          Options = []\<rparr>)
                 (filter (\<lambda>d. bindMounts d \<noteq> None \<and> \<not> MountExists (Config_Mounts g) d)
                    rest)\<rparr>,
             msgs @ map (\<lambda>d. ''User mount overriding libpod mount at '' @ d)
                 (filter (\<lambda>d. bindMounts d \<noteq> None \<and> MountExists (Config_Mounts g) d)
                    rest))"
        unfolding Cons.IH [OF d, of "AddMount ?new g" msgs] f1 f2 ..
      also have "\<dots> = (g\<lparr>Config_Mounts := Config_Mounts g @
               map (\<lambda>d. \<lparr>Destination = d, Type = ''nullfs'', Source = the (bindMounts d),
                          Options = []\<rparr>)
                 (filter (\<lambda>d. bindMounts d \<noteq> None \<and> \<not> MountExists (Config_Mounts g) d)
                    (dstPath # rest))\<rparr>,
             msgs @ map (\<lambda>d. ''User mount overriding libpod mount at '' @ d)
                 (filter (\<lambda>d. bindMounts d \<noteq> None \<and> MountExists (Config_Mounts g) d)
                    (dstPath # rest)))"
        using Some False by (simp add: AddMount_def)
      finally show ?thesis using step by simp
    qed
  qed
qed

lemma find_snoc:
  "find P (xs @ [x]) = (case find P xs of Some y \<Rightarrow> Some y | None \<Rightarrow> if P x then Some x else None)"
  by (induction xs) auto

lemma mountIntoRootDirs_foldl:
  "foldl (\<lambda>bm chrootDir. bm(f chrootDir \<mapsto> p)) bindMounts dirs
     = (\<lambda>k. if k \<in> set (map f dirs) then Some p else bindMounts k)"
  by (induction dirs arbitrary: bindMounts) (auto simp: fun_eq_iff)

lemma mountIntoRootDirs_entries:
  "mountIntoRootDirs cfg mountName mountPath bindMounts
     = ((\<lambda>k. if k = mountName \<or> k \<in> set (map (\<lambda>chrootDir. filepath_Join [chrootDir, mountName]) (ChrootDirs cfg))
              then Some mountPath else bindMounts k),
        map (\<lambda>chrootDir. ''bind chrootDir='' @ chrootDir @ '', mountName='' @ mountName)
          (ChrootDirs cfg))"
  unfolding mountIntoRootDirs_def mountIntoRootDirs_foldl by (auto simp: fun_eq_iff)

lemma makeBindMounts_secretsLoop_entries:
  "makeBindMounts_secretsLoop secretsPath secrets bindMounts
     = (\<lambda>k. case find (\<lambda>s. filepath_Join
                  [if secret_Target s \<noteq> [] \<and> filepath_IsAbs (secret_Target s) then []
                   else ''/run/secrets'',
                   if secret_Target s \<noteq> [] then secret_Target s else secret_Name s] = k)
                (rev secrets) of
              Some s \<Rightarrow> Some (filepath_Join [secretsPath, secret_Name s])
            | None \<Rightarrow> bindMounts k)"
proof (induction secrets arbitrary: bindMounts)
  case Nil
  then show ?case by simp
next
  case (Cons secret rest)
  show ?case
    by (simp only: makeBindMounts_secretsLoop.simps Let_def Cons.IH rev.simps find_snoc
          split_def if_distrib [of fst] if_distrib [of snd] fst_conv snd_conv)
       (auto simp: fun_eq_iff split: option.splits)
qed

lemma makeBindMounts_passwd_entries:
  "(Passwd cfg = None \<or> Passwd cfg = Some True) \<Longrightarrow>
   generatePasswdAndGroup_result w = (newPasswd, newGroup, None) \<Longrightarrow>
   makeBindMounts_passwd w cfg bindMounts
     = (None,
        (\<lambda>k. if k = ''/etc/group'' \<and> newGroup \<noteq> [] then Some newGroup
              else if k = ''/etc/passwd'' \<and> newPasswd \<noteq> [] then Some newPasswd
              else bindMounts k),
        [])"
  by (auto simp: makeBindMounts_passwd_def Let_def fun_eq_iff)

lemma makeBindMounts_secrets_entries:
  "Secrets cfg \<noteq> [] \<Longrightarrow> fst (createSecretMountDir w runDir bindMounts) = None \<Longrightarrow>
   makeBindMounts_secrets w cfg runDir bindMounts
     = (None,
        (\<lambda>k. case find (\<lambda>s. filepath_Join
                  [if secret_Target s \<noteq> [] \<and> filepath_IsAbs (secret_Target s) then []
                   else ''/run/secrets'',
                   if secret_Target s \<noteq> [] then secret_Target s else secret_Name s] = k)
                (rev (Secrets cfg)) of
              Some s \<Rightarrow> Some (filepath_Join [SecretsPath cfg, secret_Name s])
            | None \<Rightarrow> snd (createSecretMountDir w runDir bindMounts) k),
        [])"
proof -
  assume n: "Secrets cfg \<noteq> []" and f: "fst (createSecretMountDir w runDir bindMounts) = None"
  obtain b where c: "createSecretMountDir w runDir bindMounts = (None, b)"
    using f by (cases "createSecretMountDir w runDir bindMounts") auto
  have s: "snd (createSecretMountDir w runDir bindMounts) = b" using c by simp
  show ?thesis
    unfolding s using n by (simp add: makeBindMounts_secrets_def c makeBindMounts_secretsLoop_entries)
qed

lemma createSecretMountDir_entries:
  "snd (createSecretMountDir w runDir bindMounts) = bindMounts \<or>
   snd (createSecretMountDir w runDir bindMounts)
     = bindMounts(''/run/secrets'' \<mapsto> filepath_Join [runDir, ''/run/secrets''])"
  by (simp add: createSecretMountDir_def Let_def split: stat_result.splits option.splits)

lemma bindMountRootFile_entries:
  "os_Chown_result w source = None \<Longrightarrow> label_Relabel_result w source = None \<Longrightarrow>
   bindMountRootFile w cfg source dest bindMounts
     = (None, mountIntoRootDirs cfg dest source bindMounts)"
  by (simp add: bindMountRootFile_def split: prod.splits)

text \<open>
  Claim C6, as amended.  The writers of the bind-mount map fall in two groups.  The
  subscription mounts and the notify socket keep an entry that already exists.  The
  hosts file and \<open>resolv.conf\<close> (through \<open>bindMountRootFile\<close> and \<open>mountIntoRootDirs\<close>),
  the identity files \<open>/etc/passwd\<close> and \<open>/etc/group\<close> and the secrets store their
  entries whatever the map holds for the destination: after the writer has run, each
  destination it writes holds the new source, every other destination holds what it
  held before, and the messages do not depend on the map (for \<open>mountIntoRootDirs\<close> one
  debug message for each chroot directory, for the others none).  Of several secrets
  with the same destination the last one stays.  In the assembled specification, for a
  range that visits each destination once, a bind mount is appended exactly when its
  destination is not yet mounted; the mounts already there stay as they are, and each
  destination that was already mounted is logged.
\<close>

theorem bindMounts_writers:
  "(bindMounts k = Some v \<longrightarrow> makeBindMounts_subscriptions mounts bindMounts k = Some v) \<and>
   (bindMounts ''/run/notify'' = Some v \<longrightarrow>
      fst (snd (mountNotifySocket w cfg g bindMounts)) = bindMounts) \<and>
   mountIntoRootDirs cfg mountName mountPath bindMounts
     = ((\<lambda>k. if k = mountName \<or>
                 k \<in> set (map (\<lambda>chrootDir. filepath_Join [chrootDir, mountName])
                            (ChrootDirs cfg))
              then Some mountPath else bindMounts k),
        map (\<lambda>chrootDir. ''bind chrootDir='' @ chrootDir @ '', mountName='' @ mountName)
          (ChrootDirs cfg)) \<and>
   (os_Chown_result w source = None \<and> label_Relabel_result w source = None \<longrightarrow>
      bindMountRootFile w cfg source dest bindMounts
        = (None, mountIntoRootDirs cfg dest source bindMounts)) \<and>
   ((Passwd cfg = None \<or> Passwd cfg = Some True) \<and>
    generatePasswdAndGroup_result w = (newPasswd, newGroup, None) \<longrightarrow>
      makeBindMounts_passwd w cfg bindMounts
        = (None,
           (\<lambda>k. if k = ''/etc/group'' \<and> newGroup \<noteq> [] then Some newGroup
                 else if k = ''/etc/passwd'' \<and> newPasswd \<noteq> [] then Some newPasswd
                 else bindMounts k),
           [])) \<and>
   (snd (createSecretMountDir w runDir bindMounts) = bindMounts \<or>
    snd (createSecretMountDir w runDir bindMounts)
      = bindMounts(''/run/secrets'' \<mapsto> filepath_Join [runDir, ''/run/secrets''])) \<and>
   (Secrets cfg \<noteq> [] \<and> fst (createSecretMountDir w runDir bindMounts) = None \<longrightarrow>
      makeBindMounts_secrets w cfg runDir bindMounts
        = (None,
           (\<lambda>k. case find (\<lambda>s. filepath_Join
                     [if secret_Target s \<noteq> [] \<and> filepath_IsAbs (secret_Target s) then []
                      else ''/run/secrets'',
                      if secret_Target s \<noteq> [] then secret_Target s else secret_Name s] = k)
                   (rev (Secrets cfg)) of
                 Some s \<Rightarrow> Some (filepath_Join [SecretsPath cfg, secret_Name s])
               | None \<Rightarrow> snd (createSecretMountDir w runDir bindMounts) k),
           [])) \<and>
   (distinct order \<longrightarrow>
      generateSpec_bindMounts bindMounts order (g, msgs) =
        (g\<lparr>Config_Mounts := Config_Mounts g @
             map (\<lambda>d. \<lparr>Destination = d, Type = ''nullfs'', Source = the (bindMounts d),
                        Options = []\<rparr>)
               (filter (\<lambda>d. bindMounts d \<noteq> None \<and> \<not> MountExists (Config_Mounts g) d)
                  order)\<rparr>,
         msgs @ map (\<lambda>d. ''User mount overriding libpod mount at '' @ d)
               (filter (\<lambda>d. bindMounts d \<noteq> None \<and> MountExists (Config_Mounts g) d)
                  order)))"
proof (intro conjI impI)
  assume "bindMounts k = Some v"
  then show "makeBindMounts_subscriptions mounts bindMounts k = Some v"
    by (rule makeBindMounts_subscriptions_keeps)
next
  assume "bindMounts ''/run/notify'' = Some v"
  then show "fst (snd (mountNotifySocket w cfg g bindMounts)) = bindMounts"
    by (simp add: mountNotifySocket_def Let_def split: option.splits)
next
  show "mountIntoRootDirs cfg mountName mountPath bindMounts
     = ((\<lambda>k. if k = mountName \<or>
                 k \<in> set (map (\<lambda>chrootDir. filepath_Join [chrootDir, mountName])
                            (ChrootDirs cfg))
              then Some mountPath else bindMounts k),
        map (\<lambda>chrootDir. ''bind chrootDir='' @ chrootDir @ '', mountName='' @ mountName)
          (ChrootDirs cfg))"
    by (rule mountIntoRootDirs_entries)
next
  assume "os_Chown_result w source = None \<and> label_Relabel_result w source = None"
  then show "bindMountRootFile w cfg source dest bindMounts
        = (None, mountIntoRootDirs cfg dest source bindMounts)"
    by (simp add: bindMountRootFile_entries)
next
  assume "(Passwd cfg = None \<or> Passwd cfg = Some True) \<and>
    generatePasswdAndGroup_result w = (newPasswd, newGroup, None)"
  then show "makeBindMounts_passwd w cfg bindMounts
        = (None,
           (\<lambda>k. if k = ''/etc/group'' \<and> newGroup \<noteq> [] then Some newGroup
                 else if k = ''/etc/passwd'' \<and> newPasswd \<noteq> [] then Some newPasswd
                 else bindMounts k),
           [])"
    by (intro makeBindMounts_passwd_entries) simp_all
next
  show "snd (createSecretMountDir w runDir bindMounts) = bindMounts \<or>
    snd (createSecretMountDir w runDir bindMounts)
      = bindMounts(''/run/secrets'' \<mapsto> filepath_Join [runDir, ''/run/secrets''])"
    by (rule createSecretMountDir_entries)
next
  assume "Secrets cfg \<noteq> [] \<and> fst (createSecretMountDir w runDir bindMounts) = None"
  then show "makeBindMounts_secrets w cfg runDir bindMounts
        = (None,
           (\<lambda>k. case find (\<lambda>s. filepath_Join
                     [if secret_Target s \<noteq> [] \<and> filepath_IsAbs (secret_Target s) then []
                      else ''/run/secrets'',
                      if secret_Target s \<noteq> [] then secret_Target s else secret_Name s] = k)
                   (rev (Secrets cfg)) of
                 Some s \<Rightarrow> Some (filepath_Join [SecretsPath cfg, secret_Name s])
               | None \<Rightarrow> snd (createSecretMountDir w runDir bindMounts) k),
           [])"
    by (intro makeBindMounts_secrets_entries) simp_all
next
  assume "distinct order"
  then show "generateSpec_bindMounts bindMounts order (g, msgs) =
        (g\<lparr>Config_Mounts := Config_Mounts g @
             map (\<lambda>d. \<lparr>Destination = d, Type = ''nullfs'', Source = the (bindMounts d),
                        Options = []\<rparr>)
               (filter (\<lambda>d. bindMounts d \<noteq> None \<and> \<not> MountExists (Config_Mounts g) d)
                  order)\<rparr>,
         msgs @ map (\<lambda>d. ''User mount overriding libpod mount at '' @ d)
               (filter (\<lambda>d. bindMounts d \<noteq> None \<and> MountExists (Config_Mounts g) d)
                  order))"
    by (rule generateSpec_bindMounts_distinct)
qed

theorem bindMounts_writers_witness:
  "makeBindMounts_subscriptions (subscriptionMounts bindMount_calls_example)
       [''/run/secrets'' \<mapsto> ''/old''] ''/run/secrets'' = Some ''/old'' \<and>
   fst (snd (mountNotifySocket bindMount_calls_example
       (ContainerConfig_example\<lparr>SdNotifyMode := ''container''\<rparr>) Generator_zero
       [''/run/notify'' \<mapsto> ''/old''])) = [''/run/notify'' \<mapsto> ''/old''] \<and>
   fst (mountIntoRootDirs ContainerConfig_chroot ''/etc/hosts'' ''/run/c1/hosts.new''
       BindMounts_chroot) ''/etc/hosts'' = Some ''/run/c1/hosts.new'' \<and>
   fst (mountIntoRootDirs ContainerConfig_chroot ''/etc/hosts'' ''/run/c1/hosts.new''
       BindMounts_chroot) ''/chroot/etc/hosts'' = Some ''/run/c1/hosts.new'' \<and>
   snd (mountIntoRootDirs ContainerConfig_chroot ''/etc/hosts'' ''/run/c1/hosts.new''
       BindMounts_chroot) = [''bind chrootDir=/chroot, mountName=/etc/hosts''] \<and>
   bindMountRootFile bindMount_calls_example ContainerConfig_chroot ''/run/c1/hosts.new''
       ''/etc/hosts'' BindMounts_chroot
     = (None, mountIntoRootDirs ContainerConfig_chroot ''/etc/hosts'' ''/run/c1/hosts.new''
          BindMounts_chroot) \<and>
   fst (snd (makeBindMounts_passwd bindMount_calls_group ContainerConfig_example
       BindMounts_identity)) ''/etc/passwd'' = Some ''/static/passwd'' \<and>
   fst (snd (makeBindMounts_passwd bindMount_calls_group ContainerConfig_example
       BindMounts_identity)) ''/etc/group'' = Some ''/static/group'' \<and>
   snd (snd (makeBindMounts_passwd bindMount_calls_group ContainerConfig_example
       BindMounts_identity)) = [] \<and>
   fst (snd (makeBindMounts_secrets bindMount_calls_example ContainerConfig_two_secrets
       ''/run/c1'' BindMounts_secrets)) ''/etc/hosts'' = Some ''/secrets/s1'' \<and>
   fst (snd (makeBindMounts_secrets bindMount_calls_example ContainerConfig_two_secrets
       ''/run/c1'' BindMounts_secrets)) ''/run/secrets/s2'' = Some ''/secrets/s2'' \<and>
   snd (snd (makeBindMounts_secrets bindMount_calls_example ContainerConfig_two_secrets
       ''/run/c1'' BindMounts_secrets)) = [] \<and>
   generateSpec_bindMounts BindMounts_hosts [''/etc/resolv.conf'', ''/etc/hosts'']
       (Generator_zero\<lparr>Config_Mounts :=
          [\<lparr>Destination = ''/etc/hosts'', Type = ''nullfs'', Source = ''/home/u/hosts'',
            Options = []\<rparr>]\<rparr>, [])
     = (Generator_zero\<lparr>Config_Mounts :=
          [\<lparr>Destination = ''/etc/hosts'', Type = ''nullfs'', Source = ''/home/u/hosts'',
            Options = []\<rparr>]\<rparr>,
        [''User mount overriding libpod mount at /etc/hosts''])"
proof -
  let ?w = bindMount_calls_example
  let ?g = "Generator_zero\<lparr>Config_Mounts :=
      [\<lparr>Destination = ''/etc/hosts'', Type = ''nullfs'', Source = ''/home/u/hosts'',
        Options = []\<rparr>]\<rparr>"
  note paths = filepath_IsAbs_def filepath_Join_def filepath_Clean_def Clean_step_def Let_def
  have a: "makeBindMounts_subscriptions (subscriptionMounts ?w)
       [''/run/secrets'' \<mapsto> ''/old''] ''/run/secrets'' = Some ''/old''"
    using bindMounts_writers [where bindMounts = "[''/run/secrets'' \<mapsto> ''/old'']"
        and k = "''/run/secrets''" and v = "''/old''" and mounts = "subscriptionMounts ?w",
        THEN conjunct1]
    by simp
  have b: "fst (snd (mountNotifySocket ?w
       (ContainerConfig_example\<lparr>SdNotifyMode := ''container''\<rparr>) Generator_zero
       [''/run/notify'' \<mapsto> ''/old''])) = [''/run/notify'' \<mapsto> ''/old'']"
    using bindMounts_writers [where bindMounts = "[''/run/notify'' \<mapsto> ''/old'']"
        and v = "''/old''" and w = ?w
        and cfg = "ContainerConfig_example\<lparr>SdNotifyMode := ''container''\<rparr>"
        and g = Generator_zero, THEN conjunct2, THEN conjunct1]
    by simp
  have c: "mountIntoRootDirs ContainerConfig_chroot ''/etc/hosts'' ''/run/c1/hosts.new''
       BindMounts_chroot
     = ((\<lambda>k. if k = ''/etc/hosts'' \<or> k = ''/chroot/etc/hosts''
              then Some ''/run/c1/hosts.new'' else BindMounts_chroot k),
        [''bind chrootDir=/chroot, mountName=/etc/hosts''])"
    using bindMounts_writers [where bindMounts = BindMounts_chroot
        and cfg = ContainerConfig_chroot and mountName = "''/etc/hosts''"
        and mountPath = "''/run/c1/hosts.new''", THEN conjunct2, THEN conjunct2, THEN conjunct1]
    by (simp add: ContainerConfig_chroot_def ContainerConfig_example_def paths)
  have d: "bindMountRootFile ?w ContainerConfig_chroot ''/run/c1/hosts.new''
       ''/etc/hosts'' BindMounts_chroot
     = (None, mountIntoRootDirs ContainerConfig_chroot ''/etc/hosts'' ''/run/c1/hosts.new''
          BindMounts_chroot)"
    using bindMounts_writers [where bindMounts = BindMounts_chroot and w = ?w
        and cfg = ContainerConfig_chroot and source = "''/run/c1/hosts.new''"
        and dest = "''/etc/hosts''",
        THEN conjunct2, THEN conjunct2, THEN conjunct2, THEN conjunct1]
    by (simp add: bindMount_calls_example_def)
  have e: "makeBindMounts_passwd bindMount_calls_group ContainerConfig_example
       BindMounts_identity
     = (None,
        (\<lambda>k. if k = ''/etc/group'' then Some ''/static/group''
              else if k = ''/etc/passwd'' then Some ''/static/passwd''
              else BindMounts_identity k), [])"
    using bindMounts_writers [where bindMounts = BindMounts_identity
        and w = bindMount_calls_group and cfg = ContainerConfig_example
        and newPasswd = "''/static/passwd''" and newGroup = "''/static/group''",
        THEN conjunct2, THEN conjunct2, THEN conjunct2, THEN conjunct2, THEN conjunct1]
    by (simp add: ContainerConfig_example_def bindMount_calls_group_def
        bindMount_calls_example_def cong: if_cong)
  have f: "fst (snd (makeBindMounts_secrets ?w ContainerConfig_two_secrets ''/run/c1''
         BindMounts_secrets)) ''/etc/hosts'' = Some ''/secrets/s1'' \<and>
       fst (snd (makeBindMounts_secrets ?w ContainerConfig_two_secrets ''/run/c1''
         BindMounts_secrets)) ''/run/secrets/s2'' = Some ''/secrets/s2'' \<and>
       snd (snd (makeBindMounts_secrets ?w ContainerConfig_two_secrets ''/run/c1''
         BindMounts_secrets)) = []"
    using bindMounts_writers [where bindMounts = BindMounts_secrets
        and w = ?w and cfg = ContainerConfig_two_secrets and runDir = "''/run/c1''",
        THEN conjunct2, THEN conjunct2, THEN conjunct2, THEN conjunct2, THEN conjunct2,
        THEN conjunct2, THEN conjunct1]
    by (simp add: ContainerConfig_two_secrets_def ContainerConfig_example_def
        bindMount_calls_example_def createSecretMountDir_def paths)
  have g: "generateSpec_bindMounts BindMounts_hosts [''/etc/resolv.conf'', ''/etc/hosts'']
       (?g, []) = (?g, [''User mount overriding libpod mount at /etc/hosts''])"
    using bindMounts_writers [where bindMounts = BindMounts_hosts
        and order = "[''/etc/resolv.conf'', ''/etc/hosts'']" and g = ?g and msgs = "[]",
        THEN conjunct2, THEN conjunct2, THEN conjunct2, THEN conjunct2, THEN conjunct2,
        THEN conjunct2, THEN conjunct2]
    by (simp add: BindMounts_hosts_def MountExists_def Generator_zero_def)
  from a b c d e f g show ?thesis by simp
qed

text \<open>
  The bind-mount map holds the hosts file under \<open>/etc/hosts\<close>; a secret whose target is
  \<open>/etc/hosts\<close> replaces that entry, and no message is logged.
\<close>

theorem bindMounts_writers_counterexample:
  "BindMounts_hosts ''/etc/hosts'' = Some ''/run/c1/hosts'' \<and>
   makeBindMounts_secrets bindMount_calls_example ContainerConfig_secret ''/run/c1''
       BindMounts_hosts
     = (None, [''/etc/hosts'' \<mapsto> ''/secrets/s1''], [])"
  by (simp add: makeBindMounts_secrets_def createSecretMountDir_def
      ContainerConfig_secret_def ContainerConfig_example_def bindMount_calls_example_def
      BindMounts_hosts_def filepath_IsAbs_def filepath_Join_def filepath_Clean_def
      Clean_step_def Let_def)

end
